theory Spec2Isabelle
  imports Main "HOL-Library.AList"
begin

section \<open>JavaScript values, errors and promises\<close>

text \<open>
  The authentication helper (\<^verbatim>\<open>authHelper-old-complex.js\<close>) is browser JavaScript. Its
  functions are asynchronous, read and write a few globals of \<^verbatim>\<open>window\<close>, talk to a remote
  service and report through the console and through \<^verbatim>\<open>window.errorHandler\<close>. The embedding
  passes the mutable part explicitly as a \<open>state\<close>, takes the remote service as a
  parameter that answers each request from the history of the requests made so far, and
  returns a thrown error as \<open>Inl\<close>.
\<close>

text \<open>
  Left out: the counter \<^verbatim>\<open>window.authErrorCount\<close>, which the file sets to 0 and never reads;
  the level filter behind \<^verbatim>\<open>console.logWarn\<close>, \<^verbatim>\<open>console.logDebug\<close> and
  \<^verbatim>\<open>console.logError\<close>, so that a console entry of the log is the call, not the printed
  line; the characters outside ASCII at the head of some console messages and the values
  printed after the first argument. The logging calls themselves and the client's methods
  are taken not to throw when they are called. Ids are strings, and an error is an object
  with a \<^verbatim>\<open>message\<close> string.
\<close>

datatype jsval =
    Undefined
  | Null
  | Boolean bool
  | Num int
  | Str string
  | Obj "(string \<times> jsval) list"

text \<open>JavaScript truthiness: what \<^verbatim>\<open>if (v)\<close> tests.\<close>

fun truthy :: "jsval \<Rightarrow> bool" where
  "truthy Undefined = False"
| "truthy Null = False"
| "truthy (Boolean b) = b"
| "truthy (Num n) = (n \<noteq> 0)"
| "truthy (Str s) = (s \<noteq> [])"
| "truthy (Obj ps) = True"

text \<open>\<^verbatim>\<open>v == null\<close>: the value is \<^verbatim>\<open>null\<close> or \<^verbatim>\<open>undefined\<close>, it holds nothing.\<close>

fun nullish :: "jsval \<Rightarrow> bool" where
  "nullish Undefined = True"
| "nullish Null = True"
| "nullish v = False"

text \<open>An \<^verbatim>\<open>Error\<close> object, or a service error object; both carry a \<^verbatim>\<open>message\<close> string.\<close>

datatype js_error = Error (message: string)

fun starts_with :: "string \<Rightarrow> string \<Rightarrow> bool" where
  "starts_with s [] = True"
| "starts_with [] (c # cs) = False"
| "starts_with (x # xs) (c # cs) = (x = c \<and> starts_with xs cs)"

text \<open>\<^verbatim>\<open>String.prototype.includes\<close>: the second string occurs in the first.\<close>

fun str_includes :: "string \<Rightarrow> string \<Rightarrow> bool" where
  "str_includes [] t = (t = [])"
| "str_includes (x # xs) t = (starts_with (x # xs) t \<or> str_includes xs t)"

text \<open>
  A promise of the remote service, with the time in milliseconds at which it settles;
  \<open>Pending\<close> never settles.
\<close>

datatype 'a promise = Fulfils nat 'a | Rejects nat js_error | Pending

text \<open>
  \<^verbatim>\<open>await Promise.race([p, new Promise((_, reject) => setTimeout(() => reject(new Error(msg)), ms))])\<close>:
  the promise wins when it settles before the timer fires.
\<close>

fun race_timeout :: "'a promise \<Rightarrow> string \<Rightarrow> nat \<Rightarrow> js_error + 'a" where
  "race_timeout (Fulfils t v) msg ms = (if t < ms then Inr v else Inl (Error msg))"
| "race_timeout (Rejects t e) msg ms = (if t < ms then Inl e else Inl (Error msg))"
| "race_timeout Pending msg ms = Inl (Error msg)"

section \<open>The window, the remote service and the session state\<close>

text \<open>
  Which optional globals the page has loaded, and whether the local storage can be used:
  \<open>getItem_error\<close>, \<open>setItem_error\<close> and \<open>removeItem_error\<close> are the errors the
  storage throws on a read, a write and a removal (\<open>None\<close> when the operation works).
  None of this changes during a session.
\<close>

record window =
  supabaseClient :: bool
  errorHandler :: bool
  enhancedSupabaseOperation :: bool
  enhancedNetworkOperation :: bool
  getItem_error :: "js_error option"
  setItem_error :: "js_error option"
  removeItem_error :: "js_error option"

text \<open>
  The three record shapes of \<^verbatim>\<open>profileDataOptions\<close>, in the order of the source:
  \<^verbatim>\<open>{display_name, expires_at}\<close>, \<^verbatim>\<open>{display_name}\<close> and \<^verbatim>\<open>{}\<close>.
\<close>

datatype shape = WithExpiresAt | Minimal | EmptyShape

text \<open>
  The remote calls of the helper. The \<open>Enhanced\<close> ones go through the wrappers
  \<^verbatim>\<open>enhancedDB.enhancedSupabaseOperation\<close> and \<^verbatim>\<open>enhancedDB.enhancedNetworkOperation\<close>.
\<close>

datatype request =
    AuthGetUser
  | AuthSignOut
  | EnhancedAuthSignOut
  | SelectProfile string
  | EnhancedSelectProfile string
  | InsertProfile shape
  | EnhancedInsertProfile shape
  | FetchProfile string
  | EnhancedFetchProfile string
  | PostProfile shape
  | EnhancedPostProfile shape

text \<open>The answer of \<^verbatim>\<open>auth.getUser()\<close>: \<^verbatim>\<open>{ data: { user: { id } }, error }\<close>.\<close>

datatype auth_user = AuthUser (user_id_of: "string option")

datatype user_data = UserData (user_of: "auth_user option")

record get_user_result =
  gu_data :: "user_data option"
  gu_error :: "js_error option"

text \<open>A row of \<^verbatim>\<open>anonymous_profiles\<close> as the helper reads it: only \<^verbatim>\<open>id\<close> is used.\<close>

datatype profile_row = Row (row_id: "string option")

text \<open>The answer of a query of the structured client: \<^verbatim>\<open>{ data, error }\<close>.\<close>

record query_result =
  q_data :: "profile_row option"
  q_error :: "js_error option"

text \<open>The answer of \<^verbatim>\<open>enhancedSupabaseOperation\<close>: \<^verbatim>\<open>{ success, data, error }\<close>.\<close>

record enhanced_result =
  e_success :: bool
  e_data :: "profile_row option"
  e_error :: "js_error option"

text \<open>
  A \<^verbatim>\<open>fetch\<close> response: \<^verbatim>\<open>ok\<close>, \<^verbatim>\<open>status\<close> and the body, which is either
  JSON (\<open>Some\<close> of the parsed value, \<^verbatim>\<open>null\<close> being \<open>None\<close>) or not parseable.
\<close>

datatype body = Json "profile_row option" | NotJson

record response =
  r_ok :: bool
  r_status :: nat
  r_body :: body

text \<open>The answer of \<^verbatim>\<open>enhancedNetworkOperation\<close>: \<^verbatim>\<open>{ success, data, error }\<close>, data a response.\<close>

record network_result =
  n_success :: bool
  n_data :: "response option"
  n_error :: "js_error option"

text \<open>
  The remote service and the wrappers around it, which are not part of the helper. Each
  answers from the requests made so far, so that a mock can answer the same request
  differently the second time. \<open>Inl\<close> is a rejected promise or a thrown error.
\<close>

record remote =
  auth_getUser :: "request list \<Rightarrow> get_user_result promise"
  auth_signOut :: "request list \<Rightarrow> unit promise"
  enhanced_op :: "request list \<Rightarrow> request \<Rightarrow> js_error + enhanced_result"
  query :: "request list \<Rightarrow> request \<Rightarrow> js_error + query_result"
  enhanced_net :: "request list \<Rightarrow> request \<Rightarrow> js_error + network_result"
  fetch :: "request list \<Rightarrow> request \<Rightarrow> js_error + response"

text \<open>
  What the helper reports: a call of a console method with its first argument, and the
  calls \<^verbatim>\<open>errorHandler.logError(code, error, severity)\<close> and
  \<^verbatim>\<open>errorHandler.logInfo(code, text)\<close>.
\<close>

datatype log_entry =
    Console string string
  | LogError string js_error string
  | LogInfo string string

text \<open>
  The mutable part of a session: the flag \<^verbatim>\<open>window.authTimeoutLogged\<close>, the value stored
  under the key \<^verbatim>\<open>anon_profile_id\<close> of the local storage, the requests sent to the remote
  service and everything reported, both oldest first.
\<close>

record state =
  authTimeoutLogged :: bool
  stored :: "string option"
  calls :: "request list"
  log :: "log_entry list"

text \<open>The state when the script has just been loaded (\<^verbatim>\<open>window.authTimeoutLogged = false\<close>).\<close>

definition page_load :: "string option \<Rightarrow> state" where
  "page_load c = \<lparr>authTimeoutLogged = False, stored = c, calls = [], log = []\<rparr>"

definition console :: "string \<Rightarrow> string \<Rightarrow> state \<Rightarrow> state" where
  "console method text s = s\<lparr>log := log s @ [Console method text]\<rparr>"

text \<open>\<^verbatim>\<open>if (window.errorHandler) { window.errorHandler.logError(code, error, severity); }\<close>\<close>

definition logError :: "window \<Rightarrow> string \<Rightarrow> js_error \<Rightarrow> string \<Rightarrow> state \<Rightarrow> state" where
  "logError w code e severity s =
     (if errorHandler w then s\<lparr>log := log s @ [LogError code e severity]\<rparr> else s)"

definition logInfo :: "window \<Rightarrow> string \<Rightarrow> string \<Rightarrow> state \<Rightarrow> state" where
  "logInfo w code text s =
     (if errorHandler w then s\<lparr>log := log s @ [LogInfo code text]\<rparr> else s)"

definition sent :: "request \<Rightarrow> state \<Rightarrow> state" where
  "sent rq s = s\<lparr>calls := calls s @ [rq]\<rparr>"

section \<open>getCurrentUserId\<close>

text \<open>
  The inner \<^verbatim>\<open>try\<close>/\<^verbatim>\<open>catch\<close> of \<^verbatim>\<open>getCurrentUserId\<close>, from the settled race on: a
  service error is warned about and reported once per session, a rejection whose message
  contains \<^verbatim>\<open>timeout\<close> is reported once per session under the same flag, any other
  rejection is thrown again.
\<close>

definition getCurrentUserId_settled ::
  "window \<Rightarrow> js_error + get_user_result \<Rightarrow> state \<Rightarrow> (js_error + jsval) \<times> state" where
  "getCurrentUserId_settled w raced s =
     (case raced of
        Inr res \<Rightarrow>
          (case gu_error res of
             Some e \<Rightarrow>
               (let s1 = console ''logWarn'' ''Error getting current user:'' s;
                    s2 = (if errorHandler w \<and> \<not> authTimeoutLogged s1
                          then (logError w ''AUTH_GET_USER'' e ''medium'' s1)
                                 \<lparr>authTimeoutLogged := True\<rparr>
                          else s1)
                in (Inr Null, s2))
           | None \<Rightarrow>
               (case gu_data res of
                  None \<Rightarrow> (Inr Null, s)
                | Some d \<Rightarrow>
                    (case user_of d of
                       None \<Rightarrow> (Inr Null, s)
                     | Some u \<Rightarrow>
                         (case user_id_of u of
                            None \<Rightarrow> (Inr Null, s)
                          | Some i \<Rightarrow> (Inr (Str i), s)))))
      | Inl timeoutError \<Rightarrow>
          (if str_includes (message timeoutError) ''timeout''
           then
             (let s1 = console ''logDebug'' ''Authentication timeout - using anonymous mode'' s;
                  s2 = (if errorHandler w \<and> \<not> authTimeoutLogged s1
                        then (logError w ''AUTH_TIMEOUT'' timeoutError ''low'' s1)
                               \<lparr>authTimeoutLogged := True\<rparr>
                        else s1)
              in (Inr Null, s2))
           else (Inl timeoutError, s)))"

text \<open>
  The whole function. Without a client it warns and returns \<^verbatim>\<open>null\<close>. The outer
  \<^verbatim>\<open>catch\<close> turns every error the inner block throws into \<^verbatim>\<open>null\<close>, reporting it at
  high severity unless its message contains \<^verbatim>\<open>timeout\<close>.
\<close>

definition getCurrentUserId :: "window \<Rightarrow> remote \<Rightarrow> state \<Rightarrow> (js_error + jsval) \<times> state" where
  "getCurrentUserId w rm s =
     (if \<not> supabaseClient w
      then (Inr Null, console ''logWarn'' ''Supabase client not available'' s)
      else
        (let authPromise = auth_getUser rm (calls s);
             s1 = sent AuthGetUser s
         in case getCurrentUserId_settled w
                   (race_timeout authPromise ''Authentication timeout'' 5000) s1 of
              (Inr v, s2) \<Rightarrow> (Inr v, s2)
            | (Inl error, s2) \<Rightarrow>
                (if \<not> str_includes (message error) ''timeout''
                 then (Inr Null,
                       logError w ''AUTH_GET_USER_ID'' error ''high''
                         (console ''logError'' ''Error in getCurrentUserId:'' s2))
                 else (Inr Null, s2))))"

section \<open>The local identity cache\<close>

text \<open>
  \<^verbatim>\<open>getStoredId\<close>, \<^verbatim>\<open>setStoredId\<close> and \<^verbatim>\<open>removeStoredId\<close> read, write and remove the key
  \<^verbatim>\<open>anon_profile_id\<close>, through \<^verbatim>\<open>enhancedDB.enhancedLocalStorage\<close> when the page has
  it and through \<^verbatim>\<open>localStorage\<close> otherwise. Both are the one slot \<open>stored\<close> here.
\<close>

definition getStoredId :: "window \<Rightarrow> state \<Rightarrow> js_error + string option" where
  "getStoredId w s = (case getItem_error w of Some e \<Rightarrow> Inl e | None \<Rightarrow> Inr (stored s))"

definition setStoredId :: "window \<Rightarrow> string \<Rightarrow> state \<Rightarrow> js_error + state" where
  "setStoredId w i s =
     (case setItem_error w of Some e \<Rightarrow> Inl e | None \<Rightarrow> Inr (s\<lparr>stored := Some i\<rparr>))"

definition removeStoredId :: "window \<Rightarrow> state \<Rightarrow> js_error + state" where
  "removeStoredId w s =
     (case removeItem_error w of Some e \<Rightarrow> Inl e | None \<Rightarrow> Inr (s\<lparr>stored := None\<rparr>))"

section \<open>getOrCreateAnonymousProfile\<close>

text \<open>
  How a block of statements completes: it runs to its end, returns a value, or throws.
\<close>

datatype completion = Normal | Return jsval | Throw js_error

text \<open>\<^verbatim>\<open>if (id)\<close> on a stored or received id: the id is there and is not the empty string.\<close>

fun truthy_id :: "string option \<Rightarrow> bool" where
  "truthy_id None = False"
| "truthy_id (Some i) = (i \<noteq> [])"

text \<open>\<^verbatim>\<open>data?.id\<close>\<close>

fun id_of :: "profile_row option \<Rightarrow> string option" where
  "id_of None = None"
| "id_of (Some r) = row_id r"

text \<open>\<^verbatim>\<open>error?.message?.includes(t)\<close>\<close>

fun mentions :: "js_error option \<Rightarrow> string \<Rightarrow> bool" where
  "mentions None t = False"
| "mentions (Some e) t = str_includes (message e) t"

definition enhanced_call ::
  "remote \<Rightarrow> request \<Rightarrow> state \<Rightarrow> (js_error + enhanced_result) \<times> state" where
  "enhanced_call rm rq s = (enhanced_op rm (calls s) rq, sent rq s)"

definition query_call ::
  "remote \<Rightarrow> request \<Rightarrow> state \<Rightarrow> (js_error + query_result) \<times> state" where
  "query_call rm rq s = (query rm (calls s) rq, sent rq s)"

definition network_call ::
  "remote \<Rightarrow> request \<Rightarrow> state \<Rightarrow> (js_error + network_result) \<times> state" where
  "network_call rm rq s = (enhanced_net rm (calls s) rq, sent rq s)"

definition fetch_call ::
  "remote \<Rightarrow> request \<Rightarrow> state \<Rightarrow> (js_error + response) \<times> state" where
  "fetch_call rm rq s = (fetch rm (calls s) rq, sent rq s)"

text \<open>
  Lines 147 to 182: the stored id, when there is one, is looked up in the remote table. A
  positive answer returns it; any other answer removes it from the storage and goes on to
  the creation.
\<close>

definition verify_stored :: "window \<Rightarrow> remote \<Rightarrow> state \<Rightarrow> completion \<times> state" where
  "verify_stored w rm s =
     (case getStoredId w s of
        Inl e \<Rightarrow> (Throw e, s)
      | Inr anonProfileId \<Rightarrow>
          (if truthy_id anonProfileId
           then
             (if enhancedSupabaseOperation w
              then
                (case enhanced_call rm (EnhancedSelectProfile (the anonProfileId)) s of
                   (Inl e, s1) \<Rightarrow> (Throw e, s1)
                 | (Inr result, s1) \<Rightarrow>
                     (if e_success result \<and> e_data result \<noteq> None
                      then (Return (Str (the anonProfileId)), s1)
                      else
                        (case removeStoredId w s1 of
                           Inl e \<Rightarrow> (Throw e, s1)
                         | Inr s2 \<Rightarrow> (Normal, s2))))
              else
                (case query_call rm (SelectProfile (the anonProfileId)) s of
                   (Inl e, s1) \<Rightarrow> (Throw e, s1)
                 | (Inr result, s1) \<Rightarrow>
                     (if q_error result = None \<and> q_data result \<noteq> None
                      then (Return (Str (the anonProfileId)), s1)
                      else
                        (case removeStoredId w s1 of
                           Inl e \<Rightarrow> (Throw e, s1)
                         | Inr s2 \<Rightarrow> (Normal, s2)))))
           else (Normal, s)))"

text \<open>
  Lines 230 to 250: what the enhanced creation does with its last result. A result with
  an id is stored and returned; anything else is reported and the plain client is tried.
\<close>

definition enhanced_created :: "window \<Rightarrow> enhanced_result \<Rightarrow> state \<Rightarrow> completion \<times> state" where
  "enhanced_created w result s =
     (if e_success result \<and> truthy_id (id_of (e_data result))
      then
        (let anonProfileId = the (id_of (e_data result)) in
         case setStoredId w anonProfileId s of
           Inl e \<Rightarrow> (Throw e, s)
         | Inr s1 \<Rightarrow>
             (Return (Str anonProfileId),
              console ''logDebug'' ''Created new anonymous profile:''
                (logInfo w ''AUTH_ANON_PROFILE_CREATED''
                   (''Created anonymous profile: '' @ anonProfileId) s1)))
      else
        (Normal,
         console ''error'' ''Enhanced operation failed to create anonymous profile:''
           (logError w ''AUTH_ANON_PROFILE_CREATE_FAILED''
              (case e_error result of
                 Some e \<Rightarrow> e
               | None \<Rightarrow> Error ''Failed to create anonymous profile'')
              ''high'' s)))"

text \<open>
  Lines 185 to 251: creation through \<^verbatim>\<open>enhancedSupabaseOperation\<close>. The shape without
  \<^verbatim>\<open>expires_at\<close> is tried only when the first failure mentions \<^verbatim>\<open>expires_at\<close>; the empty
  shape is tried whenever the last result is a failure.
\<close>

definition create_enhanced :: "window \<Rightarrow> remote \<Rightarrow> state \<Rightarrow> completion \<times> state" where
  "create_enhanced w rm s =
     (case enhanced_call rm (EnhancedInsertProfile WithExpiresAt) s of
        (Inl e, s1) \<Rightarrow> (Throw e, s1)
      | (Inr result, s1) \<Rightarrow>
          (case (if \<not> e_success result \<and> mentions (e_error result) ''expires_at''
                 then enhanced_call rm (EnhancedInsertProfile Minimal)
                        (console ''logDebug''
                           ''expires_at column not found, trying minimal anonymous profile...'' s1)
                 else (Inr result, s1)) of
             (Inl e, s2) \<Rightarrow> (Throw e, s2)
           | (Inr result, s2) \<Rightarrow>
               (case (if \<not> e_success result
                      then enhanced_call rm (EnhancedInsertProfile EmptyShape)
                             (console ''logDebug'' ''Trying empty anonymous profile...'' s2)
                      else (Inr result, s2)) of
                  (Inl e, s3) \<Rightarrow> (Throw e, s3)
                | (Inr result, s3) \<Rightarrow> enhanced_created w result s3)))"

text \<open>
  One insert through the plain client inside its own \<^verbatim>\<open>try\<close>: an answer sets
  \<^verbatim>\<open>data\<close> and \<^verbatim>\<open>error\<close>, a thrown error sets \<^verbatim>\<open>error\<close> and leaves \<^verbatim>\<open>data\<close>.
\<close>

definition plain_insert ::
  "remote \<Rightarrow> shape \<Rightarrow> profile_row option \<Rightarrow> state
     \<Rightarrow> (profile_row option \<times> js_error option) \<times> state" where
  "plain_insert rm sh data s =
     (case query_call rm (InsertProfile sh) s of
        (Inr result, s1) \<Rightarrow> ((q_data result, q_error result), s1)
      | (Inl insertError, s1) \<Rightarrow> ((data, Some insertError), s1))"

text \<open>The error an insert through the plain client leaves in \<^verbatim>\<open>error\<close>, thrown or answered.\<close>

fun failure :: "js_error + query_result \<Rightarrow> js_error option" where
  "failure (Inl e) = Some e"
| "failure (Inr result) = q_error result"

text \<open>
  Lines 306 to 329: what the plain creation does with the \<^verbatim>\<open>data\<close> and \<^verbatim>\<open>error\<close> it
  ends with. A remaining error is reported and thrown; a row with an id is stored and
  returned; a row without one lets the block run to its end.
\<close>

definition plain_created ::
  "window \<Rightarrow> profile_row option \<Rightarrow> js_error option \<Rightarrow> state \<Rightarrow> completion \<times> state" where
  "plain_created w data error s =
     (case error of
        Some e \<Rightarrow>
          (Throw e,
           logError w ''AUTH_ANON_PROFILE_SUPABASE_FAILED'' e ''high''
             (console ''error'' ''Error creating anonymous profile:'' s))
      | None \<Rightarrow>
          (if truthy_id (id_of data)
           then
             (let anonProfileId = the (id_of data) in
              case setStoredId w anonProfileId s of
                Inl e \<Rightarrow> (Throw e, s)
              | Inr s1 \<Rightarrow>
                  (Return (Str anonProfileId),
                   console ''logDebug'' ''Created new anonymous profile (fallback):''
                     (logInfo w ''AUTH_ANON_PROFILE_FALLBACK_CREATED''
                        (''Created anonymous profile via fallback: '' @ anonProfileId) s1)))
           else (Normal, s)))"

text \<open>
  Lines 253 to 304: creation through the plain client, with the same condition on the
  second shape; the empty shape is tried when there is an error and no \<^verbatim>\<open>data\<close>.
\<close>

definition create_plain :: "window \<Rightarrow> remote \<Rightarrow> state \<Rightarrow> completion \<times> state" where
  "create_plain w rm s =
     (case plain_insert rm WithExpiresAt None s of
        ((data, error), s1) \<Rightarrow>
          (case (if mentions error ''expires_at''
                 then plain_insert rm Minimal data
                        (console ''logDebug''
                           ''Fallback: expires_at column not found, trying minimal profile...'' s1)
                 else ((data, error), s1)) of
             ((data, error), s2) \<Rightarrow>
               (case (if error \<noteq> None \<and> data = None
                      then plain_insert rm EmptyShape data
                             (console ''logDebug''
                                ''Fallback: trying empty anonymous profile...'' s2)
                      else ((data, error), s2)) of
                  ((data, error), s3) \<Rightarrow> plain_created w data error s3)))"

text \<open>The body of the outer \<^verbatim>\<open>try\<close>, lines 127 to 330.\<close>

definition structured_path :: "window \<Rightarrow> remote \<Rightarrow> state \<Rightarrow> completion \<times> state" where
  "structured_path w rm s =
     (case verify_stored w rm s of
        (Normal, s1) \<Rightarrow>
          (if enhancedSupabaseOperation w
           then
             (case create_enhanced w rm s1 of
                (Normal, s2) \<Rightarrow> create_plain w rm s2
              | other \<Rightarrow> other)
           else create_plain w rm s1)
      | other \<Rightarrow> other)"

text \<open>
  Lines 343 to 399: in the fallback over HTTP the stored id is read again and looked up
  with a \<^verbatim>\<open>GET\<close>. Only the status 404 removes it. Reading \<^verbatim>\<open>data.ok\<close> of a successful
  wrapper result without a response is a \<^verbatim>\<open>TypeError\<close>; \<^verbatim>\<open>response.json()\<close> of a body
  that is not JSON is a \<^verbatim>\<open>SyntaxError\<close>, where \<^verbatim>\<open>safeJSONParse\<close> gives its fallback
  \<^verbatim>\<open>null\<close>.
\<close>

definition remove_not_found :: "window \<Rightarrow> state \<Rightarrow> completion \<times> state" where
  "remove_not_found w s =
     (case removeStoredId w s of
        Inl e \<Rightarrow> (Throw e, s)
      | Inr s1 \<Rightarrow>
          (Normal, console ''log'' ''Anonymous profile not found, removed from storage'' s1))"

definition rest_verify :: "window \<Rightarrow> remote \<Rightarrow> state \<Rightarrow> completion \<times> state" where
  "rest_verify w rm s =
     (case getStoredId w s of
        Inl e \<Rightarrow> (Throw e, s)
      | Inr anonProfileId \<Rightarrow>
          (if truthy_id anonProfileId
           then
             (if enhancedNetworkOperation w
              then
                (case network_call rm (EnhancedFetchProfile (the anonProfileId)) s of
                   (Inl e, s1) \<Rightarrow> (Throw e, s1)
                 | (Inr verifyResult, s1) \<Rightarrow>
                     (if n_success verifyResult \<and> n_data verifyResult = None
                      then (Throw (Error ''Cannot read properties of undefined (reading ok)''), s1)
                      else if n_success verifyResult \<and> r_ok (the (n_data verifyResult))
                      then
                        (case r_body (the (n_data verifyResult)) of
                           Json (Some profileData) \<Rightarrow>
                             (Return (Str (the anonProfileId)),
                              console ''logDebug''
                                ''Anonymous profile verified via enhanced RESTful API:'' s1)
                         | Json None \<Rightarrow> (Normal, s1)
                         | NotJson \<Rightarrow> (Normal, s1))
                      else if map_option r_status (n_data verifyResult) = Some 404
                      then remove_not_found w s1
                      else (Normal, s1)))
              else
                (case fetch_call rm (FetchProfile (the anonProfileId)) s of
                   (Inl e, s1) \<Rightarrow> (Throw e, s1)
                 | (Inr checkResponse, s1) \<Rightarrow>
                     (if r_ok checkResponse
                      then
                        (case r_body checkResponse of
                           Json (Some profileData) \<Rightarrow>
                             (Return (Str (the anonProfileId)),
                              console ''log'' ''Anonymous profile verified via RESTful API:'' s1)
                         | Json None \<Rightarrow> (Normal, s1)
                         | NotJson \<Rightarrow> (Throw (Error ''Unexpected token in JSON''), s1))
                      else if r_status checkResponse = 404
                      then remove_not_found w s1
                      else (Normal, s1))))
           else (Normal, s)))"

text \<open>\<^verbatim>\<open>formatDesc\<close>: the name of a shape in the messages.\<close>

fun formatDesc :: "shape \<Rightarrow> string" where
  "formatDesc WithExpiresAt = ''with expires_at''"
| "formatDesc Minimal = ''minimal''"
| "formatDesc EmptyShape = ''empty''"

text \<open>
  Lines 431 to 452 and 479 to 496: a created profile with an id is stored and returned;
  one without an id ends the attempt with nothing done.
\<close>

definition rest_created ::
  "window \<Rightarrow> string \<Rightarrow> string \<Rightarrow> string \<Rightarrow> profile_row option \<Rightarrow> state
     \<Rightarrow> completion \<times> state" where
  "rest_created w code info said newProfile s =
     (if truthy_id (id_of newProfile)
      then
        (let anonProfileId = the (id_of newProfile) in
         case setStoredId w anonProfileId s of
           Inl e \<Rightarrow> (Throw e, s)
         | Inr s1 \<Rightarrow>
             (Return (Str anonProfileId),
              console ''log'' said (logInfo w code (info @ anonProfileId) s1)))
      else (Normal, s))"

text \<open>
  The body of the \<^verbatim>\<open>try\<close> in the loop of lines 416 to 465, for one shape; \<open>is_last\<close> is
  \<^verbatim>\<open>i === profileDataOptions.length - 1\<close>.
\<close>

definition rest_attempt_enhanced ::
  "window \<Rightarrow> remote \<Rightarrow> shape \<Rightarrow> bool \<Rightarrow> state \<Rightarrow> completion \<times> state" where
  "rest_attempt_enhanced w rm profileData is_last s =
     (case network_call rm (EnhancedPostProfile profileData) s of
        (Inl e, s1) \<Rightarrow> (Throw e, s1)
      | (Inr createResult, s1) \<Rightarrow>
          (if n_success createResult \<and> n_data createResult = None
           then (Throw (Error ''Cannot read properties of undefined (reading ok)''), s1)
           else if n_success createResult \<and> r_ok (the (n_data createResult))
           then
             rest_created w ''AUTH_ANON_PROFILE_REST_CREATED''
               (''Created anonymous profile via REST API ('' @ formatDesc profileData @ ''): '')
               (''Created new anonymous profile via enhanced RESTful API (''
                  @ formatDesc profileData @ ''):'')
               (case r_body (the (n_data createResult)) of
                  Json newProfile \<Rightarrow> newProfile
                | NotJson \<Rightarrow> None)
               s1
           else if is_last
           then
             (Throw (Error (''Enhanced RESTful API failed: '' @
                       (case n_error createResult of
                          None \<Rightarrow> ''Unknown error''
                        | Some e \<Rightarrow> (if message e = [] then ''Unknown error'' else message e)))),
              s1)
           else
             (Normal,
              console ''log''
                (''Profile format '' @ formatDesc profileData @ '' failed, trying next format...'')
                s1)))"

text \<open>A number in decimal, as a template string writes it.\<close>

fun digits :: "nat \<Rightarrow> string" where
  "digits n =
     (if n < 10 then [''0123456789'' ! n]
      else digits (n div 10) @ [''0123456789'' ! (n mod 10)])"

declare digits.simps [simp del]

text \<open>The body of the \<^verbatim>\<open>try\<close> in the loop of lines 468 to 508, with \<^verbatim>\<open>fetch\<close> itself.\<close>

definition rest_attempt_plain ::
  "window \<Rightarrow> remote \<Rightarrow> shape \<Rightarrow> bool \<Rightarrow> state \<Rightarrow> completion \<times> state" where
  "rest_attempt_plain w rm profileData is_last s =
     (case fetch_call rm (PostProfile profileData) s of
        (Inl e, s1) \<Rightarrow> (Throw e, s1)
      | (Inr createResponse, s1) \<Rightarrow>
          (if r_ok createResponse
           then
             (case r_body createResponse of
                NotJson \<Rightarrow> (Throw (Error ''Unexpected token in JSON''), s1)
              | Json newProfile \<Rightarrow>
                  rest_created w ''AUTH_ANON_PROFILE_REST_FALLBACK_CREATED''
                    (''Created anonymous profile via REST API fallback (''
                       @ formatDesc profileData @ ''): '')
                    (''Created new anonymous profile via RESTful API fallback (''
                       @ formatDesc profileData @ ''):'')
                    newProfile s1)
           else if is_last
           then (Throw (Error (''RESTful API failed with status '' @ digits (r_status createResponse))),
                 s1)
           else
             (Normal,
              console ''log''
                (''REST API format '' @ formatDesc profileData @ '' failed with status ''
                   @ digits (r_status createResponse) @ '', trying next format...'')
                s1)))"

text \<open>
  The two loops over \<^verbatim>\<open>profileDataOptions\<close>: an attempt that throws is caught and the
  next shape is tried, except for the last shape, whose error leaves the loop.
\<close>

fun rest_create_enhanced ::
  "window \<Rightarrow> remote \<Rightarrow> shape list \<Rightarrow> state \<Rightarrow> completion \<times> state" where
  "rest_create_enhanced w rm [] s = (Normal, s)"
| "rest_create_enhanced w rm (profileData # rest) s =
     (case rest_attempt_enhanced w rm profileData (rest = []) s of
        (Throw formatError, s1) \<Rightarrow>
          (if rest = [] then (Throw formatError, s1)
           else rest_create_enhanced w rm rest
                  (console ''log''
                     (''Profile format '' @ formatDesc profileData
                        @ '' failed, trying next format...'')
                     s1))
      | (Return v, s1) \<Rightarrow> (Return v, s1)
      | (Normal, s1) \<Rightarrow> rest_create_enhanced w rm rest s1)"

fun rest_create_plain ::
  "window \<Rightarrow> remote \<Rightarrow> shape list \<Rightarrow> state \<Rightarrow> completion \<times> state" where
  "rest_create_plain w rm [] s = (Normal, s)"
| "rest_create_plain w rm (profileData # rest) s =
     (case rest_attempt_plain w rm profileData (rest = []) s of
        (Throw formatError, s1) \<Rightarrow>
          (if rest = [] then (Throw formatError, s1)
           else rest_create_plain w rm rest
                  (console ''log''
                     (''REST API format '' @ formatDesc profileData
                        @ '' failed, trying next format...'')
                     s1))
      | (Return v, s1) \<Rightarrow> (Return v, s1)
      | (Normal, s1) \<Rightarrow> rest_create_plain w rm rest s1)"

definition profileDataOptions :: "shape list" where
  "profileDataOptions = [WithExpiresAt, Minimal, EmptyShape]"

text \<open>The body of the inner \<^verbatim>\<open>try\<close>, lines 340 to 510.\<close>

definition rest_path :: "window \<Rightarrow> remote \<Rightarrow> state \<Rightarrow> completion \<times> state" where
  "rest_path w rm s =
     (case rest_verify w rm
             (console ''logDebug''
                ''Attempting RESTful API fallback for anonymous profiles...'' s) of
        (Normal, s1) \<Rightarrow>
          (if enhancedNetworkOperation w
           then rest_create_enhanced w rm profileDataOptions s1
           else rest_create_plain w rm profileDataOptions s1)
      | other \<Rightarrow> other)"

text \<open>
  The whole function. Its header is commented out in the source file, which leaves the
  body where it was; the other functions of the file still call it, and it is read here
  as the body of \<^verbatim>\<open>async function getOrCreateAnonymousProfile()\<close>. A block that runs to
  its end makes the function return \<^verbatim>\<open>undefined\<close>.
\<close>

definition getOrCreateAnonymousProfile ::
  "window \<Rightarrow> remote \<Rightarrow> state \<Rightarrow> (js_error + jsval) \<times> state" where
  "getOrCreateAnonymousProfile w rm s =
     (case structured_path w rm s of
        (Return v, s1) \<Rightarrow> (Inr v, s1)
      | (Normal, s1) \<Rightarrow> (Inr Undefined, s1)
      | (Throw error, s1) \<Rightarrow>
          (case rest_path w rm
                  (logError w ''AUTH_ANON_PROFILE_SUPABASE_OPERATION_FAILED'' error ''high''
                     (console ''error'' ''Supabase anonymous profile operation failed:'' s1)) of
             (Return v, s2) \<Rightarrow> (Inr v, s2)
           | (Normal, s2) \<Rightarrow> (Inr Undefined, s2)
           | (Throw restfulError, s2) \<Rightarrow>
               (Inr Null,
                logError w ''AUTH_ANON_PROFILE_ALL_METHODS_FAILED'' restfulError ''critical''
                  (console ''error'' ''RESTful API fallback also failed:'' s2))))"

section \<open>Identifiers, payloads and filters\<close>

type_synonym object = "(string \<times> jsval) list"

text \<open>Reading a property of an object: \<^verbatim>\<open>undefined\<close> when the object has no such key.\<close>

definition property :: "object \<Rightarrow> string \<Rightarrow> jsval" where
  "property obj k = (case map_of obj k of None \<Rightarrow> Undefined | Some v \<Rightarrow> v)"

text \<open>
  \<^verbatim>\<open>getCurrentUserIdentifier\<close>: the object for a signed-in user has the keys \<^verbatim>\<open>user_id\<close>
  and \<^verbatim>\<open>is_authenticated\<close>, the other one has \<^verbatim>\<open>requires_login\<close> as well. Neither has
  a key \<^verbatim>\<open>anon_profile_id\<close>.
\<close>

definition getCurrentUserIdentifier ::
  "window \<Rightarrow> remote \<Rightarrow> state \<Rightarrow> (js_error + object) \<times> state" where
  "getCurrentUserIdentifier w rm s =
     (case getCurrentUserId w rm s of
        (Inr userId, s1) \<Rightarrow>
          (if truthy userId
           then (Inr [(''user_id'', userId), (''is_authenticated'', Boolean True)], s1)
           else
             (Inr [(''user_id'', Null), (''is_authenticated'', Boolean False),
                   (''requires_login'', Boolean True)],
              console ''logWarn'' ''User not authenticated - redirecting to login'' s1))
      | (Inl error, s1) \<Rightarrow>
          (Inr [(''user_id'', Null), (''is_authenticated'', Boolean False),
                (''requires_login'', Boolean True)],
           logError w ''AUTH_GET_IDENTIFIER'' error ''high''
             (console ''logError'' ''Error in getCurrentUserIdentifier:'' s1)))"

definition requireAuthentication ::
  "window \<Rightarrow> remote \<Rightarrow> state \<Rightarrow> (js_error + jsval) \<times> state" where
  "requireAuthentication w rm s =
     (case getCurrentUserId w rm s of
        (Inr userId, s1) \<Rightarrow>
          (if \<not> truthy userId then (Inl (Error ''User not authenticated''), s1)
           else (Inr userId, s1))
      | (Inl e, s1) \<Rightarrow> (Inl e, s1))"

definition requireUserIdentifier ::
  "window \<Rightarrow> remote \<Rightarrow> state \<Rightarrow> (js_error + object) \<times> state" where
  "requireUserIdentifier w rm s =
     (case getCurrentUserIdentifier w rm s of
        (Inr identifier, s1) \<Rightarrow>
          (if \<not> truthy (property identifier ''user_id'')
                \<and> \<not> truthy (property identifier ''anon_profile_id'')
           then (Inl (Error ''No valid user identifier available''), s1)
           else (Inr identifier, s1))
      | (Inl e, s1) \<Rightarrow> (Inl e, s1))"

text \<open>
  \<^verbatim>\<open>{ ...data, user_id: a, anon_profile_id: b }\<close>: the keys of \<^verbatim>\<open>data\<close> in their order, the
  two owner keys overwritten where \<^verbatim>\<open>data\<close> has them and added at the end otherwise.
\<close>

definition with_owner :: "object \<Rightarrow> jsval \<Rightarrow> jsval \<Rightarrow> object" where
  "with_owner data a b = AList.update ''anon_profile_id'' b (AList.update ''user_id'' a data)"

definition addUserIdentifierToData ::
  "window \<Rightarrow> remote \<Rightarrow> object \<Rightarrow> state \<Rightarrow> (js_error + object) \<times> state" where
  "addUserIdentifierToData w rm data s =
     (case getCurrentUserIdentifier w rm s of
        (Inr identifier, s1) \<Rightarrow>
          (Inr (with_owner data (property identifier ''user_id'')
                  (property identifier ''anon_profile_id'')), s1)
      | (Inl e, s1) \<Rightarrow> (Inl e, s1))"

definition createInsertPayload ::
  "window \<Rightarrow> remote \<Rightarrow> object \<Rightarrow> bool \<Rightarrow> state \<Rightarrow> (js_error + object) \<times> state" where
  "createInsertPayload w rm data requireAuth s =
     (if requireAuth
      then
        (case requireAuthentication w rm s of
           (Inr userId, s1) \<Rightarrow> (Inr (with_owner data userId Null), s1)
         | (Inl e, s1) \<Rightarrow> (Inl e, s1))
      else addUserIdentifierToData w rm data s)"

definition getUserQueryFilter ::
  "window \<Rightarrow> remote \<Rightarrow> bool \<Rightarrow> state \<Rightarrow> (js_error + object) \<times> state" where
  "getUserQueryFilter w rm allowAnonymous s =
     (case getCurrentUserId w rm s of
        (Inl e, s1) \<Rightarrow> (Inl e, s1)
      | (Inr userId, s1) \<Rightarrow>
          (if truthy userId then (Inr [(''user_id'', userId)], s1)
           else if allowAnonymous
           then
             (case getOrCreateAnonymousProfile w rm s1 of
                (Inl e, s2) \<Rightarrow> (Inl e, s2)
              | (Inr anonProfileId, s2) \<Rightarrow>
                  (if truthy anonProfileId then (Inr [(''anon_profile_id'', anonProfileId)], s2)
                   else (Inr [(''user_id'', Str ''no-user''),
                              (''anon_profile_id'', Str ''no-user'')], s2)))
           else (Inr [(''user_id'', Str ''no-user''), (''anon_profile_id'', Str ''no-user'')],
                 s1)))"

section \<open>Signing out\<close>

text \<open>
  \<^verbatim>\<open>clearAnonymousProfile\<close> catches what the removal throws, so it always runs to its end.
\<close>

definition clearAnonymousProfile :: "window \<Rightarrow> state \<Rightarrow> state" where
  "clearAnonymousProfile w s =
     (case removeStoredId w s of
        Inr s1 \<Rightarrow>
          logInfo w ''AUTH_ANON_PROFILE_CLEARED'' ''Anonymous profile cleared from storage''
            (console ''log'' ''Anonymous profile cleared'' s1)
      | Inl error \<Rightarrow>
          logError w ''AUTH_CLEAR_ANON_PROFILE_ERROR'' error ''low''
            (console ''error'' ''Error clearing anonymous profile:'' s))"

text \<open>
  The remote part of \<^verbatim>\<open>signOut\<close>, lines 697 to 717: through the wrapper when the page
  has it, otherwise raced against a timer of 5000 ms.
\<close>

definition signOut_remote :: "window \<Rightarrow> remote \<Rightarrow> state \<Rightarrow> completion \<times> state" where
  "signOut_remote w rm s =
     (if supabaseClient w
      then
        (if enhancedSupabaseOperation w
         then
           (case enhanced_call rm EnhancedAuthSignOut s of
              (Inl e, s1) \<Rightarrow> (Throw e, s1)
            | (Inr result, s1) \<Rightarrow>
                (Normal,
                 if \<not> e_success result
                 then console ''warn'' ''Enhanced sign out failed, but continuing with cleanup:'' s1
                 else s1))
         else
           (case race_timeout (auth_signOut rm (calls s)) ''Sign out timeout'' 5000 of
              Inl e \<Rightarrow> (Throw e, sent AuthSignOut s)
            | Inr u \<Rightarrow> (Normal, sent AuthSignOut s)))
      else (Normal, s))"

definition signOut :: "window \<Rightarrow> remote \<Rightarrow> state \<Rightarrow> (js_error + unit) \<times> state" where
  "signOut w rm s =
     (case signOut_remote w rm s of
        (Throw error, s1) \<Rightarrow>
          (Inr (),
           clearAnonymousProfile w
             (logError w ''AUTH_SIGN_OUT_ERROR'' error ''medium''
                (console ''error'' ''Error during sign out:'' s1)))
      | (other, s1) \<Rightarrow>
          (Inr (),
           console ''log'' ''User signed out successfully''
             (logInfo w ''AUTH_SIGN_OUT_SUCCESS'' ''User successfully signed out''
                (clearAnonymousProfile w s1))))"

section \<open>Sessions and what is observed of them\<close>

text \<open>
  A session that makes the same call \<open>n\<close> times, one after the other, each call starting
  in the state the one before has left.
\<close>

fun in_sequence :: "(state \<Rightarrow> 'a \<times> state) \<Rightarrow> nat \<Rightarrow> state \<Rightarrow> 'a list \<times> state" where
  "in_sequence f 0 s = ([], s)"
| "in_sequence f (Suc n) s =
     (case f s of
        (r, s1) \<Rightarrow>
          (case in_sequence f n s1 of
             (rs, s2) \<Rightarrow> (r # rs, s2)))"

text \<open>The remote call did not answer within the 5000 ms of the race.\<close>

fun unanswered :: "'a promise \<Rightarrow> bool" where
  "unanswered (Fulfils t v) = (5000 \<le> t)"
| "unanswered (Rejects t e) = (5000 \<le> t)"
| "unanswered Pending = True"

text \<open>
  The diagnostics are the calls of \<^verbatim>\<open>errorHandler.logError\<close>, which carry a severity.
  \<open>reports_of code\<close> selects those made under one code.
\<close>

fun is_report :: "string \<Rightarrow> log_entry \<Rightarrow> bool" where
  "is_report code (LogError c e severity) = (c = code)"
| "is_report code (Console method text) = False"
| "is_report code (LogInfo c text) = False"

definition reports_of :: "string \<Rightarrow> state \<Rightarrow> log_entry list" where
  "reports_of code s = filter (is_report code) (log s)"

text \<open>
  The reports under the codes \<^verbatim>\<open>AUTH_TIMEOUT\<close> and \<^verbatim>\<open>AUTH_GET_USER\<close> are made only
  while \<^verbatim>\<open>authTimeoutLogged\<close> is unset, and making one sets it. So their number, plus one
  while the flag is unset, never grows.
\<close>

definition gate_potential :: "state \<Rightarrow> nat" where
  "gate_potential s =
     length (reports_of ''AUTH_TIMEOUT'' s) + length (reports_of ''AUTH_GET_USER'' s)
       + (if authTimeoutLogged s then 0 else 1)"

text \<open>The caller is signed in: \<^verbatim>\<open>getCurrentUserId\<close> gives an id that \<^verbatim>\<open>if (userId)\<close> accepts.\<close>

definition signed_in :: "window \<Rightarrow> remote \<Rightarrow> state \<Rightarrow> bool" where
  "signed_in w rm s =
     (case fst (getCurrentUserId w rm s) of Inr userId \<Rightarrow> truthy userId | Inl e \<Rightarrow> False)"

text \<open>The requests that create a row of \<^verbatim>\<open>anonymous_profiles\<close>.\<close>

fun is_creation :: "request \<Rightarrow> bool" where
  "is_creation (InsertProfile sh) = True"
| "is_creation (EnhancedInsertProfile sh) = True"
| "is_creation (PostProfile sh) = True"
| "is_creation (EnhancedPostProfile sh) = True"
| "is_creation rq = False"




text \<open>The lookup of the stored id \<open>x\<close> that the page sends first.\<close>

definition looked_up :: "window \<Rightarrow> string \<Rightarrow> request" where
  "looked_up w x =
     (if enhancedSupabaseOperation w then EnhancedSelectProfile x else SelectProfile x)"






text \<open>
  Guest provisioning yields nothing for a caller who is not signed in: the call of
  \<^verbatim>\<open>getOrCreateAnonymousProfile\<close> that \<^verbatim>\<open>getUserQueryFilter\<close> makes after
  \<^verbatim>\<open>getCurrentUserId\<close> returns a value that \<^verbatim>\<open>if (anonProfileId)\<close> rejects.
\<close>

definition provisions_nothing :: "window \<Rightarrow> remote \<Rightarrow> state \<Rightarrow> bool" where
  "provisions_nothing w rm s =
     (case fst (getOrCreateAnonymousProfile w rm (snd (getCurrentUserId w rm s))) of
        Inr anonProfileId \<Rightarrow> \<not> truthy anonProfileId
      | Inl e \<Rightarrow> False)"

text \<open>
  Modelled from the spec: the remote record store and the way it applies a filter are
  not part of the repository. The spec gives every record the two ownership fields
  \<^verbatim>\<open>user_id\<close> and \<^verbatim>\<open>anon_profile_id\<close>, each a UUID or null, and has a filter object select
  the rows whose columns equal the values of its keys.
\<close>

record owned_row =
  owner_user_id :: "string option"
  owner_anon_profile_id :: "string option"

fun column_value :: "string option \<Rightarrow> jsval" where
  "column_value None = Null"
| "column_value (Some i) = Str i"

definition column :: "owned_row \<Rightarrow> string \<Rightarrow> jsval" where
  "column r k =
     (if k = ''user_id'' then column_value (owner_user_id r)
      else if k = ''anon_profile_id'' then column_value (owner_anon_profile_id r)
      else Undefined)"

definition matches :: "object \<Rightarrow> owned_row \<Rightarrow> bool" where
  "matches f r = list_all (\<lambda>(k, v). column r k = v) f"

text \<open>
  The text form of a UUID: 36 characters, hyphens at the positions 8, 13, 18 and 23 and
  hexadecimal digits everywhere else.
\<close>

definition is_hex :: "char \<Rightarrow> bool" where
  "is_hex c = (c \<in> set ''0123456789abcdefABCDEF'')"

definition uuid_hyphens :: "bool list" where
  "uuid_hyphens =
     replicate 8 False @ [True] @ replicate 4 False @ [True] @ replicate 4 False @ [True]
       @ replicate 4 False @ [True] @ replicate 12 False"

definition is_uuid :: "string \<Rightarrow> bool" where
  "is_uuid u =
     (map (\<lambda>c. c = CHR ''-'') u = uuid_hyphens \<and> list_all (\<lambda>c. c = CHR ''-'' \<or> is_hex c) u)"

fun uuid_or_null :: "string option \<Rightarrow> bool" where
  "uuid_or_null None = True"
| "uuid_or_null (Some i) = is_uuid i"

definition uuid_owned :: "owned_row \<Rightarrow> bool" where
  "uuid_owned r = (uuid_or_null (owner_user_id r) \<and> uuid_or_null (owner_anon_profile_id r))"


section \<open>Example pages and remote services\<close>

text \<open>A page with every optional global loaded and a working storage.\<close>

definition all_loaded :: window where
  "all_loaded =
     \<lparr>supabaseClient = True, errorHandler = True, enhancedSupabaseOperation = True,
      enhancedNetworkOperation = True, getItem_error = None, setItem_error = None,
      removeItem_error = None\<rparr>"

text \<open>A remote service that is out of reach: nothing is answered, every wrapper fails.\<close>

definition offline :: remote where
  "offline =
     \<lparr>auth_getUser = (\<lambda>h. Pending),
      auth_signOut = (\<lambda>h. Pending),
      enhanced_op = (\<lambda>h rq. Inr \<lparr>e_success = False, e_data = None,
                                e_error = Some (Error ''Failed to fetch'')\<rparr>),
      query = (\<lambda>h rq. Inl (Error ''Failed to fetch'')),
      enhanced_net = (\<lambda>h rq. Inr \<lparr>n_success = False, n_data = None,
                                 n_error = Some (Error ''Failed to fetch'')\<rparr>),
      fetch = (\<lambda>h rq. Inl (Error ''Failed to fetch''))\<rparr>"

text \<open>A remote service whose \<^verbatim>\<open>getUser\<close> answers at once with a service error.\<close>

definition rejecting_auth :: remote where
  "rejecting_auth =
     offline\<lparr>auth_getUser :=
       (\<lambda>h. Fulfils 120 \<lparr>gu_data = None, gu_error = Some (Error ''invalid JWT'')\<rparr>)\<rparr>"

text \<open>A page without the two wrappers of \<^verbatim>\<open>enhancedDB\<close>.\<close>

definition plain_page :: window where
  "plain_page =
     all_loaded\<lparr>enhancedSupabaseOperation := False, enhancedNetworkOperation := False\<rparr>"

text \<open>A remote service that answers \<^verbatim>\<open>getUser\<close> at once: nobody is signed in.\<close>

definition signed_out :: remote where
  "signed_out =
     offline\<lparr>auth_getUser :=
       (\<lambda>h. Fulfils 80 \<lparr>gu_data = Some (UserData None), gu_error = None\<rparr>)\<rparr>"

text \<open>A remote service that answers \<^verbatim>\<open>getUser\<close> at once with the user \<open>u\<close>.\<close>

definition signed_in_as :: "string \<Rightarrow> remote" where
  "signed_in_as u =
     offline\<lparr>auth_getUser :=
       (\<lambda>h. Fulfils 80 \<lparr>gu_data = Some (UserData (Some (AuthUser (Some u)))),
                         gu_error = None\<rparr>)\<rparr>"

text \<open>A remote service whose \<^verbatim>\<open>auth.signOut()\<close> succeeds after 150 ms.\<close>

definition signing_out :: remote where
  "signing_out = offline\<lparr>auth_signOut := (\<lambda>h. Fulfils 150 ())\<rparr>"

text \<open>A page of the old schema: the table has no column \<^verbatim>\<open>expires_at\<close> and takes only empty rows.\<close>

definition old_schema :: remote where
  "old_schema =
     offline\<lparr>
       enhanced_op := (\<lambda>h rq.
         if rq = EnhancedInsertProfile WithExpiresAt
         then Inr \<lparr>e_success = False, e_data = None,
                   e_error = Some (Error ''Could not find the expires_at column'')\<rparr>
         else if rq = EnhancedInsertProfile Minimal
         then Inr \<lparr>e_success = False, e_data = None,
                   e_error = Some (Error ''permission denied'')\<rparr>
         else Inr \<lparr>e_success = True, e_data = Some (Row (Some ''anon-2'')), e_error = None\<rparr>),
       query := (\<lambda>h rq.
         if rq = InsertProfile WithExpiresAt
         then Inr \<lparr>q_data = None,
                   q_error = Some (Error ''Could not find the expires_at column'')\<rparr>
         else if rq = InsertProfile Minimal
         then Inr \<lparr>q_data = None, q_error = Some (Error ''permission denied'')\<rparr>
         else Inr \<lparr>q_data = Some (Row (Some ''anon-2'')), q_error = None\<rparr>)\<rparr>"


text \<open>Two rows of the remote store, one owned by a user and one by a guest.\<close>

definition some_rows :: "owned_row list" where
  "some_rows =
     [\<lparr>owner_user_id = Some ''123e4567-e89b-12d3-a456-426614174000'',
       owner_anon_profile_id = None\<rparr>,
      \<lparr>owner_user_id = None,
       owner_anon_profile_id = Some ''0b9c5d2e-7f41-4c8a-9e66-3a1d2f4b5c6d''\<rparr>]"

text \<open>
  A remote store that has no profile and refuses every creation: a lookup finds no row,
  a \<^verbatim>\<open>GET\<close> is answered with 404, an insert is denied and a \<^verbatim>\<open>POST\<close> is answered with 403.
\<close>

definition refusing_store :: remote where
  "refusing_store =
     offline\<lparr>
       enhanced_op := (\<lambda>h rq.
         if is_creation rq
         then Inr \<lparr>e_success = False, e_data = None,
                   e_error = Some (Error ''permission denied'')\<rparr>
         else Inr \<lparr>e_success = False, e_data = None,
                   e_error = Some (Error ''no rows returned'')\<rparr>),
       query := (\<lambda>h rq.
         if is_creation rq
         then Inr \<lparr>q_data = None, q_error = Some (Error ''permission denied'')\<rparr>
         else Inr \<lparr>q_data = None, q_error = Some (Error ''no rows returned'')\<rparr>),
       enhanced_net := (\<lambda>h rq.
         if is_creation rq
         then Inr \<lparr>n_success = False,
                   n_data = Some \<lparr>r_ok = False, r_status = 403, r_body = NotJson\<rparr>,
                   n_error = Some (Error ''HTTP 403'')\<rparr>
         else Inr \<lparr>n_success = False,
                   n_data = Some \<lparr>r_ok = False, r_status = 404, r_body = NotJson\<rparr>,
                   n_error = Some (Error ''HTTP 404'')\<rparr>),
       fetch := (\<lambda>h rq.
         if is_creation rq then Inr \<lparr>r_ok = False, r_status = 403, r_body = NotJson\<rparr>
         else Inr \<lparr>r_ok = False, r_status = 404, r_body = NotJson\<rparr>)\<rparr>"


text \<open>
  A remote store reached over HTTP only that answers a \<^verbatim>\<open>GET\<close> with the status 200 and
  the body \<^verbatim>\<open>null\<close>, and refuses every creation.
\<close>

definition empty_body_store :: remote where
  "empty_body_store =
     refusing_store\<lparr>
       enhanced_op := (\<lambda>h rq. Inl (Error ''Failed to fetch'')),
       query := (\<lambda>h rq. Inl (Error ''Failed to fetch'')),
       enhanced_net := (\<lambda>h rq.
         if is_creation rq
         then Inr \<lparr>n_success = False,
                   n_data = Some \<lparr>r_ok = False, r_status = 403, r_body = NotJson\<rparr>,
                   n_error = Some (Error ''HTTP 403'')\<rparr>
         else Inr \<lparr>n_success = True,
                   n_data = Some \<lparr>r_ok = True, r_status = 200, r_body = Json None\<rparr>,
                   n_error = None\<rparr>),
       fetch := (\<lambda>h rq.
         if is_creation rq then Inr \<lparr>r_ok = False, r_status = 403, r_body = NotJson\<rparr>
         else Inr \<lparr>r_ok = True, r_status = 200, r_body = Json None\<rparr>)\<rparr>"

section \<open>The identity resolver: timeouts and service errors\<close>

lemma getCurrentUserId_settled_potential:
  "gate_potential (snd (getCurrentUserId_settled w raced s)) \<le> gate_potential s"
  by (simp add: getCurrentUserId_settled_def gate_potential_def reports_of_def Let_def
        console_def logError_def split: sum.split option.split)

lemma getCurrentUserId_potential:
  "gate_potential (snd (getCurrentUserId w rm s)) \<le> gate_potential s"
proof (cases "supabaseClient w")
  case False
  then show ?thesis
    by (simp add: getCurrentUserId_def gate_potential_def reports_of_def console_def)
next
  case True
  let ?s1 = "sent AuthGetUser s"
  let ?r = "getCurrentUserId_settled w
              (race_timeout (auth_getUser rm (calls s)) ''Authentication timeout'' 5000) ?s1"
  have a: "gate_potential (snd ?r) \<le> gate_potential ?s1"
    by (rule getCurrentUserId_settled_potential)
  have b: "gate_potential ?s1 = gate_potential s"
    by (simp add: gate_potential_def reports_of_def sent_def)
  have c: "gate_potential (snd (getCurrentUserId w rm s)) = gate_potential (snd ?r)"
    using True
    by (cases ?r)
       (auto simp: getCurrentUserId_def Let_def gate_potential_def reports_of_def
          console_def logError_def split: sum.split)
  from a b c show ?thesis by simp
qed

lemma snd_in_sequence_Suc:
  "snd (in_sequence f (Suc n) s) = snd (in_sequence f n (snd (f s)))"
  by (simp add: case_prod_beta)

lemma fst_in_sequence_Suc:
  "fst (in_sequence f (Suc n) s) = fst (f s) # fst (in_sequence f n (snd (f s)))"
  by (simp add: case_prod_beta)

lemma in_sequence_potential:
  "gate_potential (snd (in_sequence (getCurrentUserId w rm) n s)) \<le> gate_potential s"
proof (induction n arbitrary: s)
  case 0
  show ?case by simp
next
  case (Suc n)
  have "gate_potential (snd (in_sequence (getCurrentUserId w rm) n (snd (getCurrentUserId w rm s))))
          \<le> gate_potential (snd (getCurrentUserId w rm s))"
    by (rule Suc.IH)
  also have "\<dots> \<le> gate_potential s"
    by (rule getCurrentUserId_potential)
  finally show ?case
    by (simp only: snd_in_sequence_Suc)
qed

lemma page_load_potential:
  "gate_potential (snd (in_sequence (getCurrentUserId w rm) n (page_load c))) \<le> 1"
proof -
  have "gate_potential (page_load c) = 1"
    by (simp add: gate_potential_def page_load_def reports_of_def)
  with in_sequence_potential[of w rm n "page_load c"] show ?thesis
    by simp
qed

lemma timeout_returns_null:
  assumes "unanswered (auth_getUser rm (calls s))"
  shows "fst (getCurrentUserId w rm s) = Inr Null"
  using assms
  by (cases "auth_getUser rm (calls s)")
     (simp_all add: getCurrentUserId_def getCurrentUserId_settled_def Let_def)

text \<open>
  C3: whenever the remote \<^verbatim>\<open>getUser\<close> call is not answered within the 5000 ms,
  \<^verbatim>\<open>getCurrentUserId\<close> returns \<^verbatim>\<open>null\<close> (it returns, it does not throw), in whatever state
  of the session it is called. And in a session of any number of calls after the page has
  loaded, whatever the remote service answers to each, at most one diagnostic is reported
  under \<^verbatim>\<open>AUTH_TIMEOUT\<close>: the report is made only while \<^verbatim>\<open>authTimeoutLogged\<close> is unset, and
  sets it.
\<close>

theorem getCurrentUserId_timeout:
  "(unanswered (auth_getUser rm (calls s)) \<longrightarrow> fst (getCurrentUserId w rm s) = Inr Null)
   \<and> length (reports_of ''AUTH_TIMEOUT''
               (snd (in_sequence (getCurrentUserId w rm) n (page_load c)))) \<le> 1"
proof -
  from page_load_potential[of w rm n c]
  have "length (reports_of ''AUTH_TIMEOUT''
               (snd (in_sequence (getCurrentUserId w rm) n (page_load c)))) \<le> 1"
    by (simp add: gate_potential_def split: if_splits)
  with timeout_returns_null show ?thesis by blast
qed

text \<open>
  Three calls on a page with an error handler while the service is out of reach: each
  returns \<^verbatim>\<open>null\<close>, and the one report is that of the first call.
\<close>

theorem getCurrentUserId_timeout_witness:
  "unanswered (auth_getUser offline (calls (page_load None)))
   \<and> fst (getCurrentUserId all_loaded offline (page_load None)) = Inr Null
   \<and> reports_of ''AUTH_TIMEOUT''
        (snd (in_sequence (getCurrentUserId all_loaded offline) 3 (page_load None)))
       = [LogError ''AUTH_TIMEOUT'' (Error ''Authentication timeout'') ''low'']
   \<and> length (reports_of ''AUTH_TIMEOUT''
        (snd (in_sequence (getCurrentUserId all_loaded offline) 3 (page_load None)))) \<le> 1"
proof -
  have u: "unanswered (auth_getUser offline (calls (page_load None)))"
    by (simp add: offline_def)
  have r: "reports_of ''AUTH_TIMEOUT''
        (snd (in_sequence (getCurrentUserId all_loaded offline) 3 (page_load None)))
       = [LogError ''AUTH_TIMEOUT'' (Error ''Authentication timeout'') ''low'']"
    by (simp add: numeral_3_eq_3 getCurrentUserId_def getCurrentUserId_settled_def Let_def
          all_loaded_def offline_def page_load_def console_def logError_def sent_def
          reports_of_def)
  from getCurrentUserId_timeout[of offline "page_load None" all_loaded 3 None] u r
  show ?thesis by simp
qed

text \<open>
  Two service errors in a row, on a page with an error handler: both calls return
  \<^verbatim>\<open>null\<close> and both warn on the console, but only the first is reported to the error
  handler. The second service error of a session is not reported.
\<close>

theorem getCurrentUserId_service_error_counterexample:
  "in_sequence (getCurrentUserId all_loaded rejecting_auth) 2 (page_load None) =
     ([Inr Null, Inr Null],
      \<lparr>authTimeoutLogged = True, stored = None, calls = [AuthGetUser, AuthGetUser],
       log = [Console ''logWarn'' ''Error getting current user:'',
              LogError ''AUTH_GET_USER'' (Error ''invalid JWT'') ''medium'',
              Console ''logWarn'' ''Error getting current user:'']\<rparr>)"
  by (simp add: numeral_2_eq_2 getCurrentUserId_def getCurrentUserId_settled_def Let_def
        all_loaded_def rejecting_auth_def offline_def page_load_def console_def logError_def
        sent_def)

text \<open>
  C4, as the code has it: when \<^verbatim>\<open>getUser\<close> answers in time with a service error,
  \<^verbatim>\<open>getCurrentUserId\<close> returns \<^verbatim>\<open>null\<close> and warns on the console every time, but it
  reports the error to the error handler, under \<^verbatim>\<open>AUTH_GET_USER\<close> at medium severity,
  only when the page has an error handler and \<^verbatim>\<open>authTimeoutLogged\<close> is still unset, and it
  sets the flag when it does. The flag is the one the timeouts use, so a session has at most
  one report under \<^verbatim>\<open>AUTH_GET_USER\<close>, and none after a reported timeout.
\<close>

theorem getCurrentUserId_service_error:
  assumes "supabaseClient w"
    and "auth_getUser rm (calls s) = Fulfils t res"
    and "t < 5000"
    and "gu_error res = Some e"
  shows "getCurrentUserId w rm s =
           (Inr Null,
            if errorHandler w \<and> \<not> authTimeoutLogged s
            then s\<lparr>authTimeoutLogged := True,
                   calls := calls s @ [AuthGetUser],
                   log := log s @ [Console ''logWarn'' ''Error getting current user:'',
                                   LogError ''AUTH_GET_USER'' e ''medium'']\<rparr>
            else s\<lparr>calls := calls s @ [AuthGetUser],
                   log := log s @ [Console ''logWarn'' ''Error getting current user:'']\<rparr>)
       \<and> length (reports_of ''AUTH_GET_USER''
               (snd (in_sequence (getCurrentUserId w rm) n (page_load c)))) \<le> 1"
proof -
  from page_load_potential[of w rm n c]
  have "length (reports_of ''AUTH_GET_USER''
               (snd (in_sequence (getCurrentUserId w rm) n (page_load c)))) \<le> 1"
    by (simp add: gate_potential_def split: if_splits)
  moreover from assms have "getCurrentUserId w rm s =
           (Inr Null,
            if errorHandler w \<and> \<not> authTimeoutLogged s
            then s\<lparr>authTimeoutLogged := True,
                   calls := calls s @ [AuthGetUser],
                   log := log s @ [Console ''logWarn'' ''Error getting current user:'',
                                   LogError ''AUTH_GET_USER'' e ''medium'']\<rparr>
            else s\<lparr>calls := calls s @ [AuthGetUser],
                   log := log s @ [Console ''logWarn'' ''Error getting current user:'']\<rparr>)"
    by (simp add: getCurrentUserId_def getCurrentUserId_settled_def Let_def console_def
          logError_def sent_def)
  ultimately show ?thesis by simp
qed

text \<open>
  The first service error after the page has loaded is reported; one that follows a
  reported timeout is not.
\<close>

theorem getCurrentUserId_service_error_witness:
  "supabaseClient all_loaded
   \<and> auth_getUser rejecting_auth (calls (page_load None))
       = Fulfils 120 \<lparr>gu_data = None, gu_error = Some (Error ''invalid JWT'')\<rparr>
   \<and> (120::nat) < 5000
   \<and> getCurrentUserId all_loaded rejecting_auth (page_load None) =
       (Inr Null,
        \<lparr>authTimeoutLogged = True, stored = None, calls = [AuthGetUser],
         log = [Console ''logWarn'' ''Error getting current user:'',
                LogError ''AUTH_GET_USER'' (Error ''invalid JWT'') ''medium'']\<rparr>)
   \<and> length (reports_of ''AUTH_GET_USER''
        (snd (in_sequence (getCurrentUserId all_loaded rejecting_auth) 2 (page_load None))))
       \<le> 1"
proof -
  have a: "supabaseClient all_loaded"
    by (simp add: all_loaded_def)
  have b: "auth_getUser rejecting_auth (calls (page_load None))
             = Fulfils 120 \<lparr>gu_data = None, gu_error = Some (Error ''invalid JWT'')\<rparr>"
    by (simp add: rejecting_auth_def)
  have c: "(120::nat) < 5000"
    by simp
  have d: "gu_error \<lparr>gu_data = None, gu_error = Some (Error ''invalid JWT'')\<rparr>
             = Some (Error ''invalid JWT'')"
    by simp
  from getCurrentUserId_service_error[OF a b c d, of 2 None] a b c
  show ?thesis
    by (simp add: all_loaded_def page_load_def)
qed

section \<open>The binder: identifiers and payloads\<close>

lemma getCurrentUserId_settled_value:
  "fst (getCurrentUserId_settled w raced s) = Inr v \<Longrightarrow> v = Null \<or> (\<exists>i. v = Str i)"
  by (auto simp: getCurrentUserId_settled_def Let_def
        split: sum.splits option.splits if_splits)

lemma getCurrentUserId_returns:
  "\<exists>v. fst (getCurrentUserId w rm s) = Inr v \<and> (v = Null \<or> (\<exists>i. v = Str i))"
proof (cases "supabaseClient w")
  case False
  then show ?thesis by (simp add: getCurrentUserId_def)
next
  case True
  obtain r s2 where c: "getCurrentUserId_settled w
          (race_timeout (auth_getUser rm (calls s)) ''Authentication timeout'' 5000)
          (sent AuthGetUser s) = (r, s2)"
    by (cases "getCurrentUserId_settled w
          (race_timeout (auth_getUser rm (calls s)) ''Authentication timeout'' 5000)
          (sent AuthGetUser s)")
  show ?thesis
  proof (cases r)
    case (Inl e)
    with True c show ?thesis by (simp add: getCurrentUserId_def Let_def)
  next
    case (Inr v)
    with c getCurrentUserId_settled_value[of w _ _ v] have "v = Null \<or> (\<exists>i. v = Str i)"
      by (metis fst_conv)
    with True c Inr show ?thesis by (simp add: getCurrentUserId_def Let_def)
  qed
qed

lemma property_with_owner:
  "property (with_owner data a b) ''user_id'' = a"
  "property (with_owner data a b) ''anon_profile_id'' = b"
  "k \<noteq> ''user_id'' \<Longrightarrow> k \<noteq> ''anon_profile_id'' \<Longrightarrow>
     map_of (with_owner data a b) k = map_of data k"
  by (simp_all add: property_def with_owner_def update_conv')

lemma getCurrentUserIdentifier_result:
  assumes "fst (getCurrentUserId w rm s) = Inr v"
  shows "fst (getCurrentUserIdentifier w rm s) =
           Inr (if truthy v
                then [(''user_id'', v), (''is_authenticated'', Boolean True)]
                else [(''user_id'', Null), (''is_authenticated'', Boolean False),
                      (''requires_login'', Boolean True)])"
  using assms
  by (cases "getCurrentUserId w rm s") (simp add: getCurrentUserIdentifier_def)

lemma signed_in_as_U1:
  "getCurrentUserId all_loaded (signed_in_as ''U1'') (page_load c)
     = (Inr (Str ''U1''), (page_load c)\<lparr>calls := [AuthGetUser]\<rparr>)"
  by (simp add: getCurrentUserId_def getCurrentUserId_settled_def Let_def all_loaded_def
        signed_in_as_def offline_def page_load_def sent_def)

lemma signed_out_null:
  "getCurrentUserId all_loaded signed_out (page_load c)
     = (Inr Null, (page_load c)\<lparr>calls := [AuthGetUser]\<rparr>)"
  by (simp add: getCurrentUserId_def getCurrentUserId_settled_def Let_def all_loaded_def
        signed_out_def offline_def page_load_def sent_def)

text \<open>
  Nobody is signed in and the local storage holds an anonymous profile id: the payload
  built without \<^verbatim>\<open>requireAuth\<close> has \<^verbatim>\<open>user_id\<close> \<^verbatim>\<open>null\<close> and \<^verbatim>\<open>anon_profile_id\<close>
  \<^verbatim>\<open>undefined\<close>. Neither owner field holds an id.
\<close>

theorem createInsertPayload_owner_fields_counterexample:
  "fst (createInsertPayload all_loaded signed_out [(''foo'', Num 1)] False
          (page_load (Some ''anon-1'')))
     = Inr [(''foo'', Num 1), (''user_id'', Null), (''anon_profile_id'', Undefined)]"
  by (simp add: createInsertPayload_def addUserIdentifierToData_def
        getCurrentUserIdentifier_def getCurrentUserId_def getCurrentUserId_settled_def
        Let_def all_loaded_def signed_out_def offline_def page_load_def console_def
        sent_def property_def with_owner_def)

text \<open>
  C1, as the code has it: \<^verbatim>\<open>createInsertPayload(data, false)\<close> always returns a payload,
  the record with \<^verbatim>\<open>user_id\<close> set to the id \<^verbatim>\<open>getCurrentUserId\<close> gives when that id is
  truthy and to \<^verbatim>\<open>null\<close> otherwise, and with \<^verbatim>\<open>anon_profile_id\<close> set to \<^verbatim>\<open>undefined\<close>,
  because the identifier object has no such key. So \<^verbatim>\<open>anon_profile_id\<close> never holds an
  id, the two owner fields are never both non-null, and \<^verbatim>\<open>user_id\<close> holds an id exactly
  when the caller is signed in: for a caller who is not, neither field holds one.
\<close>

theorem createInsertPayload_owner_fields:
  "\<exists>v payload.
      fst (getCurrentUserId w rm s) = Inr v
    \<and> fst (createInsertPayload w rm data False s) = Inr payload
    \<and> payload = with_owner data (if truthy v then v else Null) Undefined
    \<and> property payload ''user_id'' = (if truthy v then v else Null)
    \<and> property payload ''anon_profile_id'' = Undefined
    \<and> nullish (property payload ''anon_profile_id'')
    \<and> (nullish (property payload ''user_id'') \<longleftrightarrow> \<not> signed_in w rm s)"
proof -
  from getCurrentUserId_returns obtain v where
    v: "fst (getCurrentUserId w rm s) = Inr v" and shape: "v = Null \<or> (\<exists>i. v = Str i)"
    by blast
  let ?p = "with_owner data (if truthy v then v else Null) Undefined"
  from getCurrentUserIdentifier_result[OF v]
  have p: "fst (createInsertPayload w rm data False s) = Inr ?p"
    by (cases "getCurrentUserIdentifier w rm s")
       (auto simp: createInsertPayload_def addUserIdentifierToData_def property_def)
  have n: "nullish (property ?p ''user_id'') \<longleftrightarrow> \<not> signed_in w rm s"
    using v shape by (auto simp: property_with_owner signed_in_def)
  from v p n show ?thesis
    by (simp add: property_with_owner)
qed

text \<open>The payload of a record \<^verbatim>\<open>{foo: 1}\<close> for the signed-in user \<^verbatim>\<open>U1\<close>.\<close>

theorem createInsertPayload_owner_fields_witness:
  "fst (createInsertPayload all_loaded (signed_in_as ''U1'') [(''foo'', Num 1)] False
          (page_load None))
     = Inr [(''foo'', Num 1), (''user_id'', Str ''U1''), (''anon_profile_id'', Undefined)]"
proof -
  from createInsertPayload_owner_fields
         [of all_loaded "signed_in_as ''U1''" "page_load None" "[(''foo'', Num 1)]"]
  obtain v payload where
    v: "fst (getCurrentUserId all_loaded (signed_in_as ''U1'') (page_load None)) = Inr v"
    and p: "fst (createInsertPayload all_loaded (signed_in_as ''U1'') [(''foo'', Num 1)] False
              (page_load None)) = Inr payload"
    and e: "payload = with_owner [(''foo'', Num 1)] (if truthy v then v else Null) Undefined"
    by blast
  from v have "v = Str ''U1''"
    by (simp add: signed_in_as_U1)
  with e have "payload = [(''foo'', Num 1), (''user_id'', Str ''U1''),
                          (''anon_profile_id'', Undefined)]"
    by (simp add: with_owner_def)
  with p show ?thesis by simp
qed

text \<open>
  C7: \<^verbatim>\<open>createInsertPayload(data, true)\<close> throws the error \<^verbatim>\<open>User not authenticated\<close>,
  and so gives no payload, when the caller is not signed in. When \<^verbatim>\<open>getCurrentUserId\<close>
  gives the id \<open>u\<close> of a user, it returns the record with \<^verbatim>\<open>user_id\<close> set to \<open>u\<close> and
  \<^verbatim>\<open>anon_profile_id\<close> set to \<^verbatim>\<open>null\<close>; every other key of the record keeps its value.
\<close>

theorem createInsertPayload_requireAuth:
  "(\<not> signed_in w rm s \<longrightarrow>
      fst (createInsertPayload w rm data True s) = Inl (Error ''User not authenticated''))
   \<and> (fst (getCurrentUserId w rm s) = Inr (Str u) \<and> u \<noteq> [] \<longrightarrow>
        (\<exists>payload.
            fst (createInsertPayload w rm data True s) = Inr payload
          \<and> payload = with_owner data (Str u) Null
          \<and> property payload ''user_id'' = Str u
          \<and> property payload ''anon_profile_id'' = Null
          \<and> (\<forall>k. k \<noteq> ''user_id'' \<and> k \<noteq> ''anon_profile_id'' \<longrightarrow>
                 map_of payload k = map_of data k)))"
proof -
  from getCurrentUserId_returns obtain v where
    v: "fst (getCurrentUserId w rm s) = Inr v"
    by blast
  have a: "\<not> signed_in w rm s \<Longrightarrow>
      fst (createInsertPayload w rm data True s) = Inl (Error ''User not authenticated'')"
    using v
    by (cases "getCurrentUserId w rm s")
       (simp add: createInsertPayload_def requireAuthentication_def signed_in_def)
  have b: "fst (createInsertPayload w rm data True s) = Inr (with_owner data (Str u) Null)"
    if "fst (getCurrentUserId w rm s) = Inr (Str u)" and "u \<noteq> []"
    using that
    by (cases "getCurrentUserId w rm s")
       (simp add: createInsertPayload_def requireAuthentication_def)
  from a b show ?thesis
    by (simp add: property_with_owner)
qed

text \<open>
  The record \<^verbatim>\<open>{foo: 1}\<close>: no payload when nobody is signed in, and
  \<^verbatim>\<open>{foo: 1, user_id: "U1", anon_profile_id: null}\<close> for the user \<^verbatim>\<open>U1\<close>.
\<close>

theorem createInsertPayload_requireAuth_witness:
  "\<not> signed_in all_loaded signed_out (page_load None)
   \<and> fst (createInsertPayload all_loaded signed_out [(''foo'', Num 1)] True (page_load None))
       = Inl (Error ''User not authenticated'')
   \<and> fst (getCurrentUserId all_loaded (signed_in_as ''U1'') (page_load None)) = Inr (Str ''U1'')
   \<and> fst (createInsertPayload all_loaded (signed_in_as ''U1'') [(''foo'', Num 1)] True
            (page_load None))
       = Inr [(''foo'', Num 1), (''user_id'', Str ''U1''), (''anon_profile_id'', Null)]"
proof -
  have a: "\<not> signed_in all_loaded signed_out (page_load None)"
    by (simp add: signed_in_def signed_out_null)
  have b: "fst (getCurrentUserId all_loaded (signed_in_as ''U1'') (page_load None))
             = Inr (Str ''U1'')"
    by (simp add: signed_in_as_U1)
  from createInsertPayload_requireAuth
         [of all_loaded signed_out "page_load None" "[(''foo'', Num 1)]"] a
  have c: "fst (createInsertPayload all_loaded signed_out [(''foo'', Num 1)] True
                  (page_load None)) = Inl (Error ''User not authenticated'')"
    by blast
  from createInsertPayload_requireAuth
         [where w = all_loaded and rm = "signed_in_as ''U1''" and s = "page_load None"
            and u = "''U1''" and data = "[(''foo'', Num 1)]"] b
  have d: "fst (createInsertPayload all_loaded (signed_in_as ''U1'') [(''foo'', Num 1)] True
                  (page_load None))
             = Inr (with_owner [(''foo'', Num 1)] (Str ''U1'') Null)"
    by auto
  from a b c d show ?thesis
    by (simp add: with_owner_def)
qed

text \<open>
  C10: when the caller is not signed in, \<^verbatim>\<open>requireUserIdentifier\<close> throws the error
  \<^verbatim>\<open>No valid user identifier available\<close>, whatever the local storage holds, because the
  object \<^verbatim>\<open>getCurrentUserIdentifier\<close> returns never has a key \<^verbatim>\<open>anon_profile_id\<close>. It
  returns an identifier exactly when the caller is signed in.
\<close>

theorem requireUserIdentifier_signed_in_only:
  "(\<not> signed_in w rm s \<longrightarrow>
      fst (requireUserIdentifier w rm s) = Inl (Error ''No valid user identifier available''))
   \<and> ((\<exists>identifier. fst (requireUserIdentifier w rm s) = Inr identifier) \<longleftrightarrow> signed_in w rm s)
   \<and> (\<exists>identifier. fst (getCurrentUserIdentifier w rm s) = Inr identifier
         \<and> map_of identifier ''anon_profile_id'' = None)"
proof -
  from getCurrentUserId_returns obtain v where
    v: "fst (getCurrentUserId w rm s) = Inr v"
    by blast
  note i = getCurrentUserIdentifier_result[OF v]
  have r: "fst (requireUserIdentifier w rm s) =
             (if truthy v then Inr [(''user_id'', v), (''is_authenticated'', Boolean True)]
              else Inl (Error ''No valid user identifier available''))"
    using i
    by (cases "getCurrentUserIdentifier w rm s")
       (auto simp: requireUserIdentifier_def property_def)
  from v i r show ?thesis
    by (auto simp: signed_in_def)
qed

text \<open>Nobody is signed in and the storage holds the id \<^verbatim>\<open>anon-1\<close>: the call throws.\<close>

theorem requireUserIdentifier_signed_in_only_witness:
  "\<not> signed_in all_loaded signed_out (page_load (Some ''anon-1''))
   \<and> stored (page_load (Some ''anon-1'')) = Some ''anon-1''
   \<and> fst (requireUserIdentifier all_loaded signed_out (page_load (Some ''anon-1'')))
       = Inl (Error ''No valid user identifier available'')"
proof -
  have a: "\<not> signed_in all_loaded signed_out (page_load (Some ''anon-1''))"
    by (simp add: signed_in_def signed_out_null)
  from requireUserIdentifier_signed_in_only
         [of all_loaded signed_out "page_load (Some ''anon-1'')"] a
  show ?thesis
    by (simp add: page_load_def)
qed

section \<open>Signing out\<close>

lemma stored_clearAnonymousProfile:
  "removeItem_error w = None \<Longrightarrow> stored (clearAnonymousProfile w s) = None"
  by (simp add: clearAnonymousProfile_def removeStoredId_def logInfo_def console_def)

text \<open>
  C9: \<^verbatim>\<open>signOut\<close> runs to its end without throwing, whatever the remote sign-out does
  (it succeeds, the wrapper reports a failure, it throws, or it is not answered within the
  5000 ms), and when it ends the stored anonymous profile id has been removed. The removal
  is the storage's \<^verbatim>\<open>removeItem\<close>; \<^verbatim>\<open>clearAnonymousProfile\<close> catches and reports an error
  of the storage itself, and the slot is empty whenever the storage carries the removal out.
\<close>

theorem signOut_clears_cache:
  "fst (signOut w rm s) = Inr ()
   \<and> (removeItem_error w = None \<longrightarrow> stored (snd (signOut w rm s)) = None)"
proof -
  obtain c s1 where r: "signOut_remote w rm s = (c, s1)"
    by (cases "signOut_remote w rm s")
  show ?thesis
  proof (cases c)
    case Normal
    with r show ?thesis
      by (simp add: signOut_def stored_clearAnonymousProfile logInfo_def console_def)
  next
    case (Return v)
    with r show ?thesis
      by (simp add: signOut_def stored_clearAnonymousProfile logInfo_def console_def)
  next
    case (Throw e)
    with r show ?thesis
      by (simp add: signOut_def stored_clearAnonymousProfile)
  qed
qed

text \<open>
  A stale id \<^verbatim>\<open>anon-1\<close> is stored. It is gone after a sign-out that succeeds, after one
  the wrapper reports as failed, and after one that is not answered in time.
\<close>

theorem signOut_clears_cache_witness:
  "removeItem_error plain_page = None
   \<and> removeItem_error all_loaded = None
   \<and> signOut plain_page signing_out (page_load (Some ''anon-1'')) =
       (Inr (),
        \<lparr>authTimeoutLogged = False, stored = None, calls = [AuthSignOut],
         log = [Console ''log'' ''Anonymous profile cleared'',
                LogInfo ''AUTH_ANON_PROFILE_CLEARED'' ''Anonymous profile cleared from storage'',
                LogInfo ''AUTH_SIGN_OUT_SUCCESS'' ''User successfully signed out'',
                Console ''log'' ''User signed out successfully'']\<rparr>)
   \<and> stored (snd (signOut all_loaded offline (page_load (Some ''anon-1'')))) = None
   \<and> signOut plain_page offline (page_load (Some ''anon-1'')) =
       (Inr (),
        \<lparr>authTimeoutLogged = False, stored = None, calls = [AuthSignOut],
         log = [Console ''error'' ''Error during sign out:'',
                LogError ''AUTH_SIGN_OUT_ERROR'' (Error ''Sign out timeout'') ''medium'',
                Console ''log'' ''Anonymous profile cleared'',
                LogInfo ''AUTH_ANON_PROFILE_CLEARED''
                  ''Anonymous profile cleared from storage'']\<rparr>)"
proof -
  have a: "removeItem_error plain_page = None" "removeItem_error all_loaded = None"
    by (simp_all add: plain_page_def all_loaded_def)
  have b: "signOut plain_page signing_out (page_load (Some ''anon-1'')) =
       (Inr (),
        \<lparr>authTimeoutLogged = False, stored = None, calls = [AuthSignOut],
         log = [Console ''log'' ''Anonymous profile cleared'',
                LogInfo ''AUTH_ANON_PROFILE_CLEARED'' ''Anonymous profile cleared from storage'',
                LogInfo ''AUTH_SIGN_OUT_SUCCESS'' ''User successfully signed out'',
                Console ''log'' ''User signed out successfully'']\<rparr>)"
    by (simp add: signOut_def signOut_remote_def clearAnonymousProfile_def removeStoredId_def
          plain_page_def all_loaded_def signing_out_def offline_def page_load_def
          logInfo_def logError_def console_def sent_def)
  have c: "signOut plain_page offline (page_load (Some ''anon-1'')) =
       (Inr (),
        \<lparr>authTimeoutLogged = False, stored = None, calls = [AuthSignOut],
         log = [Console ''error'' ''Error during sign out:'',
                LogError ''AUTH_SIGN_OUT_ERROR'' (Error ''Sign out timeout'') ''medium'',
                Console ''log'' ''Anonymous profile cleared'',
                LogInfo ''AUTH_ANON_PROFILE_CLEARED''
                  ''Anonymous profile cleared from storage'']\<rparr>)"
    by (simp add: signOut_def signOut_remote_def clearAnonymousProfile_def removeStoredId_def
          plain_page_def all_loaded_def offline_def page_load_def
          logInfo_def logError_def console_def sent_def)
  from signOut_clears_cache[of all_loaded offline "page_load (Some ''anon-1'')"] a
  have d: "stored (snd (signOut all_loaded offline (page_load (Some ''anon-1'')))) = None"
    by blast
  from a b c d show ?thesis by simp
qed

section \<open>The guest-provisioning chain: the order of the creation attempts\<close>

lemma calls_enhanced_created:
  "calls (snd (enhanced_created w result s)) = calls s"
  by (simp add: enhanced_created_def setStoredId_def logInfo_def logError_def console_def
        Let_def split: option.split)

lemma calls_plain_created:
  "calls (snd (plain_created w data error s)) = calls s"
  by (simp add: plain_created_def setStoredId_def logInfo_def logError_def console_def
        Let_def split: option.split)

lemma plain_insert_eq:
  "plain_insert rm sh data s =
     ((case query rm (calls s) (InsertProfile sh) of
         Inr result \<Rightarrow> (q_data result, q_error result)
       | Inl e \<Rightarrow> (data, Some e)),
      sent (InsertProfile sh) s)"
  by (simp add: plain_insert_def query_call_def split: sum.split)

lemma create_enhanced_calls:
  "calls (snd (create_enhanced w rm s)) =
     calls s @ map EnhancedInsertProfile
       (WithExpiresAt #
          (case enhanced_op rm (calls s) (EnhancedInsertProfile WithExpiresAt) of
             Inl e \<Rightarrow> []
           | Inr ra \<Rightarrow>
               (if \<not> e_success ra \<and> mentions (e_error ra) ''expires_at''
                then Minimal #
                       (case enhanced_op rm (calls s @ [EnhancedInsertProfile WithExpiresAt])
                               (EnhancedInsertProfile Minimal) of
                          Inl e \<Rightarrow> []
                        | Inr rb \<Rightarrow> (if \<not> e_success rb then [EmptyShape] else []))
                else if \<not> e_success ra then [EmptyShape] else [])))"
  by (simp add: create_enhanced_def enhanced_call_def sent_def console_def
        calls_enhanced_created split: sum.split)

lemma create_plain_calls:
  "calls (snd (create_plain w rm s)) =
     calls s @ map InsertProfile
       (WithExpiresAt #
          (case query rm (calls s) (InsertProfile WithExpiresAt) of oa \<Rightarrow>
             (if mentions (failure oa) ''expires_at''
              then Minimal #
                     (case query rm (calls s @ [InsertProfile WithExpiresAt])
                             (InsertProfile Minimal) of
                        Inl e \<Rightarrow>
                          (if (case oa of Inl e \<Rightarrow> True | Inr ra \<Rightarrow> q_data ra = None)
                           then [EmptyShape] else [])
                      | Inr rb \<Rightarrow>
                          (if q_error rb \<noteq> None \<and> q_data rb = None then [EmptyShape] else []))
              else if failure oa \<noteq> None
                        \<and> (case oa of Inl e \<Rightarrow> True | Inr ra \<Rightarrow> q_data ra = None)
              then [EmptyShape] else [])))"
proof (cases "query rm (calls s) (InsertProfile WithExpiresAt)")
  case (Inl e)
  then show ?thesis
    by (cases "query rm (calls s @ [InsertProfile WithExpiresAt]) (InsertProfile Minimal)")
       (simp_all add: create_plain_def plain_insert_eq sent_def console_def calls_plain_created
          case_prod_beta)
next
  case (Inr ra)
  then show ?thesis
    by (cases "query rm (calls s @ [InsertProfile WithExpiresAt]) (InsertProfile Minimal)")
       (simp_all add: create_plain_def plain_insert_eq sent_def console_def calls_plain_created
          case_prod_beta)
qed


text \<open>
  The remote service is out of reach, so every attempt fails and no failure mentions
  \<^verbatim>\<open>expires_at\<close>. Both chains over the structured client go from the first shape straight
  to the empty one; the shape \<^verbatim>\<open>{display_name}\<close> is tried only by the loop over HTTP.
\<close>

theorem structured_creation_order_counterexample:
  "calls (snd (getOrCreateAnonymousProfile all_loaded offline (page_load None))) =
     [EnhancedInsertProfile WithExpiresAt, EnhancedInsertProfile EmptyShape,
      InsertProfile WithExpiresAt, InsertProfile EmptyShape,
      EnhancedPostProfile WithExpiresAt, EnhancedPostProfile Minimal,
      EnhancedPostProfile EmptyShape]"
  by (simp add: getOrCreateAnonymousProfile_def structured_path_def verify_stored_def
        getStoredId_def create_enhanced_def enhanced_call_def enhanced_created_def
        create_plain_def plain_insert_def query_call_def plain_created_def
        rest_path_def rest_verify_def profileDataOptions_def rest_attempt_enhanced_def
        network_call_def all_loaded_def offline_def page_load_def
        logError_def console_def sent_def)

text \<open>
  C2, as the code has it: in both chains over the structured client the shape with
  \<^verbatim>\<open>expires_at\<close> is tried first. The shape \<^verbatim>\<open>{display_name}\<close> is tried next exactly when
  that first attempt failed with a message that contains \<^verbatim>\<open>expires_at\<close>. The empty shape
  is tried after the last attempt made when that one failed (through the plain client:
  when it left an error and no data). So the order is a, b, c when the first failure
  mentions \<^verbatim>\<open>expires_at\<close> and the second attempt fails too, it is a, c when the first
  failure does not mention it, and nothing is tried after an attempt that succeeded. A
  wrapper call that throws ends the chain.
\<close>

theorem structured_creation_order:
  "(let oa = enhanced_op rm (calls s) (EnhancedInsertProfile WithExpiresAt);
        ob = enhanced_op rm (calls s @ [EnhancedInsertProfile WithExpiresAt])
               (EnhancedInsertProfile Minimal)
    in calls (snd (create_enhanced w rm s)) =
         calls s @ map EnhancedInsertProfile
           (WithExpiresAt #
              (case oa of
                 Inl e \<Rightarrow> []
               | Inr ra \<Rightarrow>
                   (if \<not> e_success ra \<and> mentions (e_error ra) ''expires_at''
                    then Minimal #
                           (case ob of
                              Inl e \<Rightarrow> []
                            | Inr rb \<Rightarrow> (if \<not> e_success rb then [EmptyShape] else []))
                    else if \<not> e_success ra then [EmptyShape] else []))))
   \<and> (let oa = query rm (calls s) (InsertProfile WithExpiresAt);
          ob = query rm (calls s @ [InsertProfile WithExpiresAt]) (InsertProfile Minimal);
          no_data = (case oa of Inl e \<Rightarrow> True | Inr ra \<Rightarrow> q_data ra = None)
      in calls (snd (create_plain w rm s)) =
           calls s @ map InsertProfile
             (WithExpiresAt #
                (if mentions (failure oa) ''expires_at''
                 then Minimal #
                        (case ob of
                           Inl e \<Rightarrow> (if no_data then [EmptyShape] else [])
                         | Inr rb \<Rightarrow>
                             (if q_error rb \<noteq> None \<and> q_data rb = None
                              then [EmptyShape] else []))
                 else if failure oa \<noteq> None \<and> no_data then [EmptyShape] else [])))"
  using create_enhanced_calls[of w rm s] create_plain_calls[of w rm s]
  by (simp add: Let_def)

text \<open>
  On the old schema the first failure mentions \<^verbatim>\<open>expires_at\<close> and the second attempt
  fails as well: both chains try the three shapes in their order.
\<close>

theorem structured_creation_order_witness:
  "calls (snd (create_enhanced all_loaded old_schema (page_load None)))
     = [EnhancedInsertProfile WithExpiresAt, EnhancedInsertProfile Minimal,
        EnhancedInsertProfile EmptyShape]
   \<and> calls (snd (create_plain all_loaded old_schema (page_load None)))
     = [InsertProfile WithExpiresAt, InsertProfile Minimal, InsertProfile EmptyShape]"
  using structured_creation_order[of old_schema "page_load None" all_loaded]
  by (simp add: Let_def old_schema_def offline_def page_load_def)

section \<open>The local identity cache\<close>

lemma stored_logging [simp]:
  "stored (console m t s) = stored s"
  "stored (logError w c e sev s) = stored s"
  "stored (logInfo w c t s) = stored s"
  "stored (sent rq s) = stored s"
  by (simp_all add: console_def logError_def logInfo_def sent_def)


subsection \<open>The steps a block may take\<close>










subsection \<open>Combinators\<close>



subsection \<open>The structured path\<close>





lemma stored_enhanced_call [simp]:
  "stored (snd (enhanced_call rm rq s)) = stored s"
  by (simp add: enhanced_call_def)





lemma stored_plain_insert [simp]:
  "stored (snd (plain_insert rm sh data s)) = stored s"
  by (cases "query rm (calls s) (InsertProfile sh)")
     (simp_all add: plain_insert_def query_call_def)




subsection \<open>The path over HTTP\<close>











subsection \<open>The whole function\<close>










subsection \<open>A confirmed id\<close>


lemma is_creation_looked_up [simp]: "\<not> is_creation (looked_up w x)"
  by (simp add: looked_up_def)




subsection \<open>A stale id\<close>



lemma calls_logging [simp]:
  "calls (console m t s) = calls s"
  "calls (logError w c e sev s) = calls s"
  "calls (logInfo w c t s) = calls s"
  "calls (sent rq s) = calls s @ [rq]"
  by (simp_all add: console_def logError_def logInfo_def sent_def)







text \<open>
  Only the status 404 counts as missing over HTTP. When the structured client throws and the
  \<^verbatim>\<open>GET\<close> is answered with the status 200 and an empty body, the stored id is not removed:
  with every creation refused, the call returns \<^verbatim>\<open>null\<close> and \<^verbatim>\<open>anon-1\<close> is still stored.
\<close>

lemma empty_body_keeps_stored_id:
  "fst (getOrCreateAnonymousProfile plain_page empty_body_store (page_load (Some ''anon-1'')))
     = Inr Null
   \<and> stored (snd (getOrCreateAnonymousProfile plain_page empty_body_store
                    (page_load (Some ''anon-1'')))) = Some ''anon-1''
   \<and> calls (snd (getOrCreateAnonymousProfile plain_page empty_body_store
                   (page_load (Some ''anon-1''))))
       = [SelectProfile ''anon-1'', FetchProfile ''anon-1'',
          PostProfile WithExpiresAt, PostProfile Minimal, PostProfile EmptyShape]"
  by (simp add: getOrCreateAnonymousProfile_def structured_path_def
        verify_stored_def getStoredId_def query_call_def
        rest_path_def rest_verify_def profileDataOptions_def rest_attempt_plain_def
        fetch_call_def plain_page_def all_loaded_def empty_body_store_def refusing_store_def
        offline_def page_load_def logError_def console_def sent_def)



section \<open>The query filter\<close>

lemma getOrCreateAnonymousProfile_returns:
  "\<exists>v. fst (getOrCreateAnonymousProfile w rm s) = Inr v"
  by (simp add: getOrCreateAnonymousProfile_def split: prod.split completion.split)

lemma is_uuid_length: "is_uuid u \<Longrightarrow> length u = 36"
proof -
  assume "is_uuid u"
  then have "length (map (\<lambda>c. c = CHR ''-'') u) = length uuid_hyphens"
    by (simp add: is_uuid_def)
  then show ?thesis
    by (simp add: uuid_hyphens_def)
qed

lemma no_user_unmatched:
  assumes "uuid_owned r"
  shows "\<not> matches [(''user_id'', Str ''no-user''), (''anon_profile_id'', Str ''no-user'')] r"
proof
  assume "matches [(''user_id'', Str ''no-user''), (''anon_profile_id'', Str ''no-user'')] r"
  then have "column_value (owner_user_id r) = Str ''no-user''"
    by (simp add: matches_def column_def)
  then have u: "owner_user_id r = Some ''no-user''"
    by (cases "owner_user_id r") simp_all
  with assms have "is_uuid ''no-user''"
    by (simp add: uuid_owned_def)
  from is_uuid_length[OF this] show False by simp
qed

text \<open>
  C8: when the caller is not signed in and guest provisioning yields nothing (or guests are
  not allowed), \<^verbatim>\<open>getUserQueryFilter\<close> returns the filter
  \<^verbatim>\<open>{user_id: "no-user", anon_profile_id: "no-user"}\<close>. Whatever happens it returns a
  filter object and does not throw. And that filter selects no row of a store whose
  ownership fields hold UUIDs or null, since \<^verbatim>\<open>no-user\<close> is not a UUID.
\<close>

theorem getUserQueryFilter_no_identity:
  "(\<not> signed_in w rm s \<and> (allowAnonymous \<longrightarrow> provisions_nothing w rm s) \<longrightarrow>
      fst (getUserQueryFilter w rm allowAnonymous s)
        = Inr [(''user_id'', Str ''no-user''), (''anon_profile_id'', Str ''no-user'')])
   \<and> (\<exists>f. fst (getUserQueryFilter w rm allowAnonymous s) = Inr f)
   \<and> (list_all uuid_owned rows \<longrightarrow>
        filter (matches [(''user_id'', Str ''no-user''), (''anon_profile_id'', Str ''no-user'')])
          rows = [])"
proof -
  obtain v s1 where u: "getCurrentUserId w rm s = (Inr v, s1)"
    using getCurrentUserId_returns[of w rm s]
    by (cases "getCurrentUserId w rm s") auto
  obtain a s2 where g: "getOrCreateAnonymousProfile w rm s1 = (Inr a, s2)"
    using getOrCreateAnonymousProfile_returns[of w rm s1]
    by (cases "getOrCreateAnonymousProfile w rm s1") auto
  have one: "fst (getUserQueryFilter w rm allowAnonymous s)
        = Inr [(''user_id'', Str ''no-user''), (''anon_profile_id'', Str ''no-user'')]"
    if "\<not> signed_in w rm s" and "allowAnonymous \<longrightarrow> provisions_nothing w rm s"
    using that u g
    by (auto simp: getUserQueryFilter_def signed_in_def provisions_nothing_def)
  have two: "\<exists>f. fst (getUserQueryFilter w rm allowAnonymous s) = Inr f"
    using u g by (simp add: getUserQueryFilter_def)
  have three: "filter (matches [(''user_id'', Str ''no-user''),
                                (''anon_profile_id'', Str ''no-user'')]) rows = []"
    if "list_all uuid_owned rows"
    using that no_user_unmatched
    by (auto simp: filter_empty_conv list_all_iff)
  from one two three show ?thesis by blast
qed


lemma not_signed_in_offline: "\<not> signed_in all_loaded offline (page_load c)"
  by (simp add: signed_in_def getCurrentUserId_def getCurrentUserId_settled_def Let_def
        all_loaded_def offline_def page_load_def)

lemma provisions_nothing_offline: "provisions_nothing all_loaded offline (page_load None)"
  by (simp add: provisions_nothing_def getCurrentUserId_def getCurrentUserId_settled_def
        Let_def getOrCreateAnonymousProfile_def structured_path_def verify_stored_def
        getStoredId_def create_enhanced_def enhanced_call_def enhanced_created_def
        create_plain_def plain_insert_def query_call_def plain_created_def
        rest_path_def rest_verify_def profileDataOptions_def rest_attempt_enhanced_def
        network_call_def all_loaded_def offline_def page_load_def
        logError_def console_def sent_def)

lemma some_rows_uuid: "list_all uuid_owned some_rows"
  by (simp add: some_rows_def uuid_owned_def is_uuid_def uuid_hyphens_def is_hex_def
        numeral_eq_Suc)

text \<open>
  The service is out of reach: nobody is signed in, every creation fails, the filter is
  the one that matches nothing, here none of two rows.
\<close>

theorem getUserQueryFilter_no_identity_witness:
  "\<not> signed_in all_loaded offline (page_load None)
   \<and> provisions_nothing all_loaded offline (page_load None)
   \<and> fst (getUserQueryFilter all_loaded offline True (page_load None))
       = Inr [(''user_id'', Str ''no-user''), (''anon_profile_id'', Str ''no-user'')]
   \<and> list_all uuid_owned some_rows
   \<and> filter (matches [(''user_id'', Str ''no-user''), (''anon_profile_id'', Str ''no-user'')])
        some_rows = []"
  using getUserQueryFilter_no_identity[of all_loaded offline "page_load None" True some_rows]
    not_signed_in_offline[of None] provisions_nothing_offline some_rows_uuid
  by simp

end
